theory Spec2Isabelle
  imports Main
begin

section \<open>The Polarion node: request helper and resource dispatcher\<close>

text \<open>
  A shallow embedding of \<^verbatim>\<open>src/nodes/Polarion/Polarion.node.ts\<close>: the request helper
  \<^verbatim>\<open>polarionApiRequest\<close> and the loop of \<^verbatim>\<open>Polarion.execute\<close>.

  A JavaScript string is a sequence of UTF-16 code units. It is represented by the bytes
  of its generalised UTF-8 text: a code point takes its UTF-8 bytes, and a surrogate code
  unit that is not half of a pair takes the three bytes \<^verbatim>\<open>ED A0..BF 80..BF\<close> of its own
  value (a pair is the four bytes of the code point it denotes). Equal strings have equal
  bytes; \<open>@\<close> is the concatenation wherever an ASCII character stands at the joint,
  which is the case for every concatenation of the code. JavaScript values are a
  datatype; numbers are integers plus \<open>NaN\<close>, which is all the code inspects of a
  number (whether it is falsy). Objects are the association lists of their own
  properties, read with \<open>map_of\<close>.
  A \<^verbatim>\<open>throw\<close> is the \<open>Inl\<close> of a sum. The host runtime (parameters, credential,
  fail-tolerant flag, JSON parser, HTTP transport) is a record the functions read; the
  requests handed to the transport are collected in a log that is passed along.
\<close>

subsection \<open>JavaScript values\<close>

datatype jsval =
    JUndefined
  | JNull
  | JBool bool
  | JNum int
  | JNaN
  | JStr string
  | JArr "jsval list"
  | JObj "(string \<times> jsval) list"

type_synonym jsobject = "(string \<times> jsval) list"

text \<open>ToBoolean: what \<^verbatim>\<open>if (v)\<close>, \<^verbatim>\<open>v || d\<close> and \<^verbatim>\<open>v && w\<close> test.\<close>

fun truthy :: "jsval \<Rightarrow> bool" where
  "truthy JUndefined = False"
| "truthy JNull = False"
| "truthy (JBool b) = b"
| "truthy (JNum n) = (n \<noteq> 0)"
| "truthy JNaN = False"
| "truthy (JStr s) = (s \<noteq> [])"
| "truthy (JArr xs) = True"
| "truthy (JObj kvs) = True"

text \<open>\<^verbatim>\<open>a || b\<close>\<close>

definition js_or :: "jsval \<Rightarrow> jsval \<Rightarrow> jsval" where
  "js_or a b = (if truthy a then a else b)"

text \<open>\<^verbatim>\<open>obj.k\<close> on an object: the value, or \<^verbatim>\<open>undefined\<close> when there is no such property.\<close>

definition get_prop :: "jsobject \<Rightarrow> string \<Rightarrow> jsval" where
  "get_prop obj k = (case map_of obj k of None \<Rightarrow> JUndefined | Some v \<Rightarrow> v)"

text \<open>
  \<^verbatim>\<open>obj.k = v\<close> for a property name other than \<^verbatim>\<open>__proto__\<close> (the code assigns
  \<^verbatim>\<open>fields\<close>, \<^verbatim>\<open>limit\<close>, \<^verbatim>\<open>skip\<close> and \<^verbatim>\<open>query\<close>): replaces the property where it is, or
  adds it at the end.
\<close>

fun obj_set :: "jsobject \<Rightarrow> string \<Rightarrow> jsval \<Rightarrow> jsobject" where
  "obj_set [] k v = [(k, v)]"
| "obj_set ((k', v') # ps) k v =
     (if k' = k then (k, v) # ps else (k', v') # obj_set ps k v)"

text \<open>
  \<^verbatim>\<open>obj[k] = v\<close> for any property name, on an object that inherits from
  \<^verbatim>\<open>Object.prototype\<close>: the name \<^verbatim>\<open>__proto__\<close>, unless it is an own property already,
  reaches the inherited setter, which replaces the prototype (or does nothing) and
  creates no own property.
\<close>

definition js_set :: "jsobject \<Rightarrow> string \<Rightarrow> jsval \<Rightarrow> jsobject" where
  "js_set obj k v =
     (if k = ''__proto__'' \<and> map_of obj k = None then obj else obj_set obj k v)"

text \<open>Decimal text of an array index, the property name \<^verbatim>\<open>Object.assign\<close> copies it under.\<close>

definition digit_char :: "nat \<Rightarrow> char" where
  "digit_char d = ''0123456789'' ! d"

fun decimal :: "nat \<Rightarrow> string" where
  "decimal n = (if n < 10 then [digit_char n] else decimal (n div 10) @ [digit_char (n mod 10)])"

declare decimal.simps [simp del]

text \<open>
  The UTF-16 code units of a string, each as the bytes of the one-unit string: a code
  point of one, two or three bytes is one unit; a code point of four bytes is two
  units, the high and the low surrogate of its pair.
\<close>

definition surrogate_bytes :: "nat \<Rightarrow> nat list" where
  "surrogate_bytes u = [0xE0 + u div 4096, 0x80 + (u div 64) mod 64, 0x80 + u mod 64]"

fun code_units :: "nat list \<Rightarrow> nat list list" where
  "code_units (a # b # c # d # s) =
     (if 0xF0 \<le> a then
        (let v = (a mod 8) * 262144 + (b mod 64) * 4096 + (c mod 64) * 64 + d mod 64 - 65536
         in [surrogate_bytes (0xD800 + v div 1024), surrogate_bytes (0xDC00 + v mod 1024)])
        @ code_units s
      else if 0xE0 \<le> a then [a, b, c] # code_units (d # s)
      else if 0xC0 \<le> a then [a, b] # code_units (c # d # s)
      else [a] # code_units (b # c # d # s))"
| "code_units [a, b, c] =
     (if 0xE0 \<le> a then [[a, b, c]]
      else if 0xC0 \<le> a then [a, b] # code_units [c]
      else [a] # code_units [b, c])"
| "code_units [a, b] = (if 0xC0 \<le> a then [[a, b]] else [a] # code_units [b])"
| "code_units [a] = [[a]]"
| "code_units [] = []"

text \<open>
  The own enumerable properties of a value used as a source of \<^verbatim>\<open>Object.assign\<close>:
  those of an object; the indices of an array; the indices of a string (one code unit
  each); none for a number, a boolean, \<^verbatim>\<open>null\<close> or \<^verbatim>\<open>undefined\<close>.
\<close>

fun own_props :: "jsval \<Rightarrow> jsobject" where
  "own_props (JObj kvs) = kvs"
| "own_props (JArr xs) = map (\<lambda>(i, x). (decimal i, x)) (enumerate 0 xs)"
| "own_props (JStr s) =
     map (\<lambda>(i, u). (decimal i, JStr (map char_of u))) (enumerate 0 (code_units (map of_char s)))"
| "own_props _ = []"

text \<open>\<^verbatim>\<open>Object.assign(target, source)\<close>: \<^verbatim>\<open>target[k] = source[k]\<close> for each own key in order.\<close>

definition object_assign :: "jsobject \<Rightarrow> jsval \<Rightarrow> jsobject" where
  "object_assign target source =
     fold (\<lambda>k t. js_set t k (get_prop (own_props source) k)) (map fst (own_props source)) target"

subsection \<open>Library functions of the platform\<close>

text \<open>
  \<^verbatim>\<open>Buffer.from(s)\<close>: the UTF-8 bytes of the string, with \<^verbatim>\<open>EF BF BD\<close> (the replacement
  character) for a surrogate that is not half of a pair.
\<close>

fun utf8_bytes :: "nat list \<Rightarrow> nat list" where
  "utf8_bytes (a # b # c # s) =
     (if a = 0xED \<and> 0xA0 \<le> b then [0xEF, 0xBF, 0xBD] @ utf8_bytes s
      else a # utf8_bytes (b # c # s))"
| "utf8_bytes s = s"

text \<open>\<^verbatim>\<open>toString('base64')\<close>: RFC 4648 base64 of the bytes, with padding.\<close>

definition b64_char :: "nat \<Rightarrow> char" where
  "b64_char n = ''ABCDEFGHIJKLMNOPQRSTUVWXYZabcdefghijklmnopqrstuvwxyz0123456789+/'' ! n"

fun base64_bytes :: "nat list \<Rightarrow> string" where
  "base64_bytes [] = []"
| "base64_bytes [a] =
     [b64_char (a div 4), b64_char ((a mod 4) * 16), CHR ''='', CHR ''='']"
| "base64_bytes [a, b] =
     [b64_char (a div 4), b64_char ((a mod 4) * 16 + b div 16),
      b64_char ((b mod 16) * 4), CHR ''='']"
| "base64_bytes (a # b # c # rest) =
     [b64_char (a div 4), b64_char ((a mod 4) * 16 + b div 16),
      b64_char ((b mod 16) * 4 + c div 64), b64_char (c mod 64)] @ base64_bytes rest"

definition base64 :: "string \<Rightarrow> string" where
  "base64 s = base64_bytes (utf8_bytes (map of_char s))"

text \<open>
  \<^verbatim>\<open>encodeURIComponent\<close> throws a \<^verbatim>\<open>URIError\<close> when the string has a surrogate that is not
  half of a pair: the byte \<^verbatim>\<open>ED\<close> followed by a byte from \<^verbatim>\<open>A0\<close> on. Otherwise letters,
  digits and \<^verbatim>\<open>- _ . ! ~ * ' ( )\<close> stay and every other byte of the UTF-8 text becomes
  \<^verbatim>\<open>%XX\<close> with upper-case hexadecimal digits.
\<close>

fun has_lone_surrogate :: "string \<Rightarrow> bool" where
  "has_lone_surrogate (a # b # s) =
     ((of_char a = (0xED :: nat) \<and> (0xA0 :: nat) \<le> of_char b) \<or> has_lone_surrogate (b # s))"
| "has_lone_surrogate s = False"

definition uri_unreserved :: "char \<Rightarrow> bool" where
  "uri_unreserved c \<longleftrightarrow>
     c \<in> set (''ABCDEFGHIJKLMNOPQRSTUVWXYZabcdefghijklmnopqrstuvwxyz0123456789-_.!~*()''
              @ [CHR 0x27])"

definition hex_char :: "nat \<Rightarrow> char" where
  "hex_char n = ''0123456789ABCDEF'' ! n"

definition percent_byte :: "char \<Rightarrow> string" where
  "percent_byte c = [CHR ''%'', hex_char (of_char c div 16), hex_char (of_char c mod 16)]"

definition uri_escape :: "string \<Rightarrow> string" where
  "uri_escape s = concat (map (\<lambda>c. if uri_unreserved c then [c] else percent_byte c) s)"

subsection \<open>Errors\<close>

text \<open>
  The code throws \<^verbatim>\<open>NodeOperationError\<close> (a message and, from the request helper's
  handler, the upstream response body); \<^verbatim>\<open>JSON.parse\<close> throws a \<^verbatim>\<open>SyntaxError\<close>,
  \<^verbatim>\<open>encodeURIComponent\<close> a \<^verbatim>\<open>URIError\<close>, and a property read on \<^verbatim>\<open>null\<close> or
  \<^verbatim>\<open>undefined\<close> a \<^verbatim>\<open>TypeError\<close>.
\<close>

datatype js_error =
    NodeOperationError string jsval
  | SyntaxError string
  | TypeError string
  | URIError string

fun message :: "js_error \<Rightarrow> string" where
  "message (NodeOperationError m r) = m"
| "message (SyntaxError m) = m"
| "message (TypeError m) = m"
| "message (URIError m) = m"

definition uri_malformed :: js_error where
  "uri_malformed = URIError ''URI malformed''"

definition encodeURIComponent :: "string \<Rightarrow> js_error + string" where
  "encodeURIComponent s = (if has_lone_surrogate s then Inl uri_malformed else Inr (uri_escape s))"

subsection \<open>The host runtime\<close>

datatype http_method = GET | POST | PUT | DELETE

record credentials =
  baseUrl :: string
  authentication :: string
  username :: string
  password :: string
  pat :: string

record http_request =
  req_baseURL :: string
  req_url :: string
  req_method :: http_method
  req_body :: jsobject
  req_qs :: jsobject
  req_json :: bool
  req_headers :: "(string \<times> string) list"

text \<open>What the transport's rejection carries: \<^verbatim>\<open>error.message\<close> and \<^verbatim>\<open>error.response?.data\<close>.\<close>

record upstream_error =
  err_message :: string
  err_response_data :: jsval

text \<open>The values \<^verbatim>\<open>getNodeParameter(name, i)\<close> gives for item \<open>i\<close>.\<close>

record item_params =
  options :: jsobject
  data :: string
  workItemId :: string
  documentId :: string
  projectId :: string
  resourceId :: string
  query :: string

text \<open>
  The execution context. \<open>json_parse\<close> is \<^verbatim>\<open>JSON.parse\<close> (\<open>Inl\<close> the message of its
  \<^verbatim>\<open>SyntaxError\<close>); \<open>transport\<close> is \<^verbatim>\<open>this.helpers.request\<close>, answering a request given
  the requests issued before it.
\<close>

record env =
  resource :: string
  operation :: string
  continueOnFail :: bool
  getCredentials :: "credentials option"
  json_parse :: "string \<Rightarrow> string + jsval"
  transport :: "http_request list \<Rightarrow> http_request \<Rightarrow> upstream_error + jsval"

subsection \<open>The request helper \<^verbatim>\<open>polarionApiRequest\<close>\<close>

definition credentials_not_set :: js_error where
  "credentials_not_set = NodeOperationError ''Polarion credentials are not set.'' JUndefined"

definition invalid_authentication :: js_error where
  "invalid_authentication =
     NodeOperationError ''Invalid authentication method specified in credentials.'' JUndefined"

text \<open>Lines 34-49: the header, or the error for a method that is neither.\<close>

definition authHeader :: "credentials \<Rightarrow> js_error + string" where
  "authHeader c =
     (if authentication c = ''basic'' then
        Inr (''Basic '' @ base64 (username c @ '':'' @ password c))
      else if authentication c = ''pat'' then
        Inr (''Bearer '' @ pat c)
      else Inl invalid_authentication)"

text \<open>Lines 51-63; \<^verbatim>\<open>uri || resource\<close> takes the override when it is a non-empty string.\<close>

definition request_options ::
  "credentials \<Rightarrow> string \<Rightarrow> http_method \<Rightarrow> string \<Rightarrow> jsobject \<Rightarrow> jsobject \<Rightarrow> string option
     \<Rightarrow> http_request" where
  "request_options c hdr method path body qs uri =
     \<lparr> req_baseURL = baseUrl c,
       req_url = (case uri of Some u \<Rightarrow> if u \<noteq> [] then u else path | None \<Rightarrow> path),
       req_method = method,
       req_body = body,
       req_qs = qs,
       req_json = True,
       req_headers = [(''Content-Type'', ''application/json''),
                      (''Accept'', ''application/json''),
                      (''Authorization'', hdr)] \<rparr>"

definition polarionApiRequest ::
  "env \<Rightarrow> http_method \<Rightarrow> string \<Rightarrow> jsobject \<Rightarrow> jsobject \<Rightarrow> string option
     \<Rightarrow> http_request list \<Rightarrow> (js_error + jsval) \<times> http_request list" where
  "polarionApiRequest e method path body qs uri log =
     (case getCredentials e of
        None \<Rightarrow> (Inl credentials_not_set, log)
      | Some c \<Rightarrow>
          (case authHeader c of
             Inl err \<Rightarrow> (Inl err, log)
           | Inr hdr \<Rightarrow>
               (let opts = request_options c hdr method path body qs uri in
                (case transport e log opts of
                   Inr response \<Rightarrow> (Inr response, log @ [opts])
                 | Inl err \<Rightarrow>
                     (Inl (NodeOperationError
                            (''Polarion API request failed: '' @ err_message err)
                            (err_response_data err)),
                      log @ [opts])))))"

subsection \<open>The dispatcher \<^verbatim>\<open>Polarion.execute\<close>\<close>

text \<open>What one iteration hands to the request helper (line 386).\<close>

record request_spec =
  rs_method :: http_method
  rs_endpoint :: string
  rs_body :: jsobject
  rs_qs :: jsobject
  rs_uri :: "string option"

text \<open>Lines 326-336: the common query parameters, built before the \<^verbatim>\<open>try\<close>.\<close>

definition common_qs :: "env \<Rightarrow> jsobject \<Rightarrow> jsobject" where
  "common_qs e opts =
     (let qs = [];
          qs = (if truthy (get_prop opts ''fields'')
                then obj_set qs ''fields'' (get_prop opts ''fields'') else qs);
          qs = (if operation e = ''list''
                then obj_set (obj_set qs ''limit'' (js_or (get_prop opts ''limit'') (JNum 50)))
                       ''skip'' (js_or (get_prop opts ''skip'') (JNum 0))
                else qs)
      in qs)"

text \<open>Lines 339-345: the body and the method.\<close>

definition body_and_method :: "env \<Rightarrow> item_params \<Rightarrow> js_error + (jsobject \<times> http_method)" where
  "body_and_method e it =
     (if operation e = ''create'' \<or> operation e = ''update'' then
        (case json_parse e (data it) of
           Inl msg \<Rightarrow> Inl (SyntaxError msg)
         | Inr v \<Rightarrow> Inr (object_assign [] v, if operation e = ''create'' then POST else PUT))
      else if operation e = ''delete'' then Inr ([], DELETE)
      else Inr ([], GET))"

definition by_id :: "string \<Rightarrow> bool" where
  "by_id op \<longleftrightarrow> op = ''get'' \<or> op = ''update'' \<or> op = ''delete''"

definition simple_resources :: "string list" where
  "simple_resources =
     [''users'', ''enumerations'', ''jobs'', ''collections'', ''plans'', ''pages'',
      ''testRuns'', ''testRecords'', ''testSteps'', ''approvals'']"

definition routing_error :: "string \<Rightarrow> js_error" where
  "routing_error r =
     NodeOperationError (''Resource '' @ [CHR 0x22] @ r @ [CHR 0x22] @ '' routing error.'')
       JUndefined"

text \<open>Lines 349-383: the endpoint and the query parameters after routing.\<close>

definition route ::
  "env \<Rightarrow> item_params \<Rightarrow> string \<Rightarrow> jsobject \<Rightarrow> js_error + (string \<times> jsobject)" where
  "route e it endpoint qs =
     (if resource e = ''workItems'' then
        (if by_id (operation e) then Inr (endpoint @ ''/'' @ workItemId it, qs)
         else if operation e = ''list'' then Inr (endpoint, obj_set qs ''query'' (JStr (query it)))
         else Inr (endpoint, qs))
      else if resource e = ''documents'' then
        (if by_id (operation e) then
           (case encodeURIComponent (documentId it) of
              Inl err \<Rightarrow> Inl err
            | Inr encoded \<Rightarrow> Inr (endpoint @ ''/'' @ encoded, qs))
         else Inr (endpoint, qs))
      else if resource e = ''projects'' then
        (if by_id (operation e) then Inr (endpoint @ ''/'' @ projectId it, qs)
         else Inr (endpoint, qs))
      else if resource e \<in> set simple_resources then
        (if by_id (operation e) then Inr (endpoint @ ''/'' @ resourceId it, qs)
         else Inr (endpoint, qs))
      else Inl (routing_error (resource e)))"

text \<open>Lines 321-383 of one iteration: the request it resolves, or the error it throws.\<close>

definition build_request :: "env \<Rightarrow> item_params \<Rightarrow> js_error + request_spec" where
  "build_request e it =
     (let endpoint = ''/'' @ resource e;
          qs = common_qs e (options it)
      in case body_and_method e it of
           Inl err \<Rightarrow> Inl err
         | Inr (body, method) \<Rightarrow>
             (case route e it endpoint qs of
                Inl err \<Rightarrow> Inl err
              | Inr (endpoint', qs') \<Rightarrow>
                  Inr \<lparr> rs_method = method, rs_endpoint = endpoint', rs_body = body,
                        rs_qs = qs', rs_uri = None \<rparr>))"

text \<open>
  Lines 388-396. \<^verbatim>\<open>responseData.data\<close> throws a \<^verbatim>\<open>TypeError\<close> when the response is
  \<^verbatim>\<open>null\<close> or \<^verbatim>\<open>undefined\<close>; an array, a string, a number or a boolean has no such
  property.
\<close>

definition cannot_read_data :: "string \<Rightarrow> js_error" where
  "cannot_read_data what =
     TypeError (''Cannot read properties of '' @ what @ '' (reading '' @ [CHR 0x27] @ ''data''
                @ [CHR 0x27] @ '')'')"

fun read_data :: "jsval \<Rightarrow> js_error + jsval" where
  "read_data JUndefined = Inl (cannot_read_data ''undefined'')"
| "read_data JNull = Inl (cannot_read_data ''null'')"
| "read_data (JObj kvs) = Inr (get_prop kvs ''data'')"
| "read_data _ = Inr JUndefined"

fun isArray :: "jsval \<Rightarrow> bool" where
  "isArray (JArr xs) = True"
| "isArray _ = False"

fun elements :: "jsval \<Rightarrow> jsval list" where
  "elements (JArr xs) = xs"
| "elements _ = []"

definition normalize :: "jsval \<Rightarrow> js_error + jsval list" where
  "normalize responseData =
     (case read_data responseData of
        Inl err \<Rightarrow> Inl err
      | Inr d \<Rightarrow>
          if truthy d \<and> isArray d then Inr (elements d)
          else if isArray responseData then Inr (elements responseData)
          else Inr [responseData])"

text \<open>The body of the \<^verbatim>\<open>try\<close>: the records to push, or the error thrown.\<close>

definition process_item ::
  "env \<Rightarrow> item_params \<Rightarrow> http_request list \<Rightarrow> (js_error + jsval list) \<times> http_request list" where
  "process_item e it log =
     (case build_request e it of
        Inl err \<Rightarrow> (Inl err, log)
      | Inr spec \<Rightarrow>
          (case polarionApiRequest e (rs_method spec) (rs_endpoint spec) (rs_body spec)
                  (rs_qs spec) (rs_uri spec) log of
             (Inl err, log') \<Rightarrow> (Inl err, log')
           | (Inr responseData, log') \<Rightarrow> (normalize responseData, log')))"

text \<open>Line 401: the record pushed for a failed item under fail-tolerant mode.\<close>

definition error_record :: "js_error \<Rightarrow> nat \<Rightarrow> jsval" where
  "error_record err i = JObj [(''error'', JStr (message err)), (''itemIndex'', JNum (int i))]"

text \<open>
  The loop of lines 320-406, from index \<open>i\<close> with \<open>returnData\<close> and the request log so
  far. A \<^verbatim>\<open>throw\<close> out of the loop loses \<open>returnData\<close>.
\<close>

fun execute_loop ::
  "env \<Rightarrow> nat \<Rightarrow> item_params list \<Rightarrow> jsval list \<Rightarrow> http_request list
     \<Rightarrow> (js_error + jsval list) \<times> http_request list" where
  "execute_loop e i [] returnData log = (Inr returnData, log)"
| "execute_loop e i (it # items) returnData log =
     (case process_item e it log of
        (Inr records, log') \<Rightarrow> execute_loop e (Suc i) items (returnData @ records) log'
      | (Inl err, log') \<Rightarrow>
          if continueOnFail e
          then execute_loop e (Suc i) items (returnData @ [error_record err i]) log'
          else (Inl err, log'))"

text \<open>
  \<^verbatim>\<open>execute\<close>: the records in \<open>returnData\<close> at the return of line 408 (which the host's
  \<^verbatim>\<open>returnJsonArray\<close> then wraps one by one), or the error thrown, with the requests issued.
\<close>

definition execute ::
  "env \<Rightarrow> item_params list \<Rightarrow> (js_error + jsval list) \<times> http_request list" where
  "execute e items = execute_loop e 0 items [] []"

text \<open>The requests one iteration hands to the transport.\<close>

definition issued :: "env \<Rightarrow> item_params \<Rightarrow> http_request list \<Rightarrow> http_request list" where
  "issued e it log = drop (length log) (snd (process_item e it log))"

text \<open>The resource selector's values (lines 221-233).\<close>

definition resource_tags :: "string list" where
  "resource_tags =
     [''workItems'', ''documents'', ''projects'', ''users'', ''enumerations'', ''jobs'',
      ''collections'', ''plans'', ''pages'', ''testRuns'', ''testRecords'', ''testSteps'',
      ''approvals'']"

subsection \<open>A concrete host, for evaluating the definitions\<close>

definition example_credentials :: credentials where
  "example_credentials =
     \<lparr> baseUrl = ''https://polarion.example.com/polarion/api/rest/v1'',
       authentication = ''basic'', username = ''user'', password = ''pass'',
       pat = ''tok123'' \<rparr>"

definition example_item :: item_params where
  "example_item =
     \<lparr> options = [], data = ''{}'', workItemId = ''MyProject-123'',
       documentId = ''MyProject/Specification'', projectId = ''MyProject'',
       resourceId = ''resource_id_123'', query = ''status:open'' \<rparr>"

text \<open>
  A server that rejects one query, answers a \<^verbatim>\<open>DELETE\<close> with the body \<^verbatim>\<open>null\<close>, the
  projects with a bare array, any other list with two records under \<^verbatim>\<open>data\<close>, and
  anything else with one object; and a parser that knows four texts.
\<close>

definition example_transport :: "http_request list \<Rightarrow> http_request \<Rightarrow> upstream_error + jsval" where
  "example_transport log req =
     (if map_of (req_qs req) ''query'' = Some (JStr ''status:'')
      then Inl \<lparr> err_message = ''400 - Bad Request'', err_response_data = JUndefined \<rparr>
      else if req_method req = DELETE then Inr JNull
      else if req_url req = ''/projects''
      then Inr (JArr [JObj [(''id'', JStr ''P'')], JObj [(''id'', JStr ''Q'')]])
      else if map_of (req_qs req) ''limit'' \<noteq> None
      then Inr (JObj [(''data'', JArr [JObj [(''id'', JStr ''A'')], JObj [(''id'', JStr ''B'')]])])
      else Inr (JObj [(''id'', JStr ''A'')]))"

definition example_payload :: string where
  "example_payload =
     ''{'' @ [CHR 0x22] @ ''title'' @ [CHR 0x22] @ '':'' @ [CHR 0x22] @ ''Fix'' @ [CHR 0x22] @ ''}''"

definition proto_payload :: string where
  "proto_payload =
     ''{'' @ [CHR 0x22] @ ''__proto__'' @ [CHR 0x22] @ '':{'' @ [CHR 0x22] @ ''admin''
       @ [CHR 0x22] @ '':true},'' @ [CHR 0x22] @ ''title'' @ [CHR 0x22] @ '':'' @ [CHR 0x22]
       @ ''Fix'' @ [CHR 0x22] @ ''}''"

text \<open>The one-unit string of the surrogate \<^verbatim>\<open>U+D800\<close>.\<close>

definition lone_surrogate :: string where
  "lone_surrogate = [CHR 0xED, CHR 0xA0, CHR 0x80]"

definition example_parse :: "string \<Rightarrow> string + jsval" where
  "example_parse s =
     (if s = ''{}'' then Inr (JObj [])
      else if s = example_payload then Inr (JObj [(''title'', JStr ''Fix'')])
      else if s = proto_payload
      then Inr (JObj [(''__proto__'', JObj [(''admin'', JBool True)]), (''title'', JStr ''Fix'')])
      else if s = ''[7]'' then Inr (JArr [JNum 7])
      else Inl ''Unexpected end of JSON input'')"

definition example_env :: env where
  "example_env =
     \<lparr> resource = ''workItems'', operation = ''list'', continueOnFail = True,
       getCredentials = Some example_credentials,
       json_parse = example_parse, transport = example_transport \<rparr>"

section \<open>Properties\<close>

subsection \<open>Objects\<close>

lemma map_of_obj_set: "map_of (obj_set ps k v) = (map_of ps)(k \<mapsto> v)"
  by (induction ps) (auto simp: fun_eq_iff)

subsection \<open>Building the request\<close>

lemma common_qs_lookup:
  "map_of (common_qs e opts) k =
     (if k = ''fields'' \<and> truthy (get_prop opts ''fields'') then Some (get_prop opts ''fields'')
      else if operation e = ''list'' \<and> k = ''limit''
        then Some (js_or (get_prop opts ''limit'') (JNum 50))
      else if operation e = ''list'' \<and> k = ''skip''
        then Some (js_or (get_prop opts ''skip'') (JNum 0))
      else None)"
  by (simp add: common_qs_def Let_def map_of_obj_set)

lemma route_qs:
  assumes "route e it ep qs = Inr (ep', qs')"
  shows "map_of qs' =
     (if resource e = ''workItems'' \<and> operation e = ''list''
      then (map_of qs)(''query'' \<mapsto> JStr (query it)) else map_of qs)"
  using assms
  by (auto simp: route_def by_id_def map_of_obj_set split: if_splits sum.splits)

lemma route_endpoint:
  assumes "route e it ep qs = Inr (ep', qs')"
  shows "ep' =
     (if by_id (operation e) then
        ep @ ''/'' @ (if resource e = ''workItems'' then workItemId it
                      else if resource e = ''documents'' then uri_escape (documentId it)
                      else if resource e = ''projects'' then projectId it
                      else resourceId it)
      else ep)"
  using assms
  by (auto simp: route_def encodeURIComponent_def split: if_splits)

lemma route_encoded:
  assumes "route e it ep qs = Inr r" and "resource e = ''documents''" and "by_id (operation e)"
  shows "encodeURIComponent (documentId it) = Inr (uri_escape (documentId it))"
  using assms
  by (auto simp: route_def encodeURIComponent_def split: if_splits)

lemma build_request_parts:
  assumes "build_request e it = Inr spec"
  shows "\<exists>body. body_and_method e it = Inr (body, rs_method spec) \<and> rs_body spec = body \<and>
           route e it (''/'' @ resource e) (common_qs e (options it))
             = Inr (rs_endpoint spec, rs_qs spec) \<and> rs_uri spec = None"
  using assms
  by (auto simp: build_request_def Let_def split: sum.splits prod.splits)

lemma build_request_qs:
  assumes "build_request e it = Inr spec"
  shows "map_of (rs_qs spec) k =
     (if resource e = ''workItems'' \<and> operation e = ''list'' \<and> k = ''query''
      then Some (JStr (query it)) else map_of (common_qs e (options it)) k)"
proof -
  from build_request_parts [OF assms]
  have "route e it (''/'' @ resource e) (common_qs e (options it))
             = Inr (rs_endpoint spec, rs_qs spec)" by blast
  from route_qs [OF this] show ?thesis by simp
qed

lemma polarionApiRequest_log:
  "snd (polarionApiRequest e m p b q u log) = log \<or>
   (\<exists>c hdr. getCredentials e = Some c \<and> authHeader c = Inr hdr \<and>
      snd (polarionApiRequest e m p b q u log) = log @ [request_options c hdr m p b q u])"
  by (simp add: polarionApiRequest_def Let_def split: option.splits sum.splits)

lemma issued_request:
  assumes "req \<in> set (issued e it log)"
  shows "\<exists>spec c hdr. build_request e it = Inr spec \<and> getCredentials e = Some c \<and>
           authHeader c = Inr hdr \<and>
           req = request_options c hdr (rs_method spec) (rs_endpoint spec) (rs_body spec)
                   (rs_qs spec) None"
proof (cases "build_request e it")
  case (Inl err)
  with assms show ?thesis by (simp add: issued_def process_item_def)
next
  case (Inr spec)
  let ?call = "polarionApiRequest e (rs_method spec) (rs_endpoint spec) (rs_body spec)
                  (rs_qs spec) (rs_uri spec) log"
  have u: "rs_uri spec = None" using build_request_parts [OF Inr] by blast
  have s: "snd (process_item e it log) = snd ?call"
    by (simp add: process_item_def Inr split: prod.splits sum.splits)
  from polarionApiRequest_log [of e "rs_method spec" "rs_endpoint spec" "rs_body spec"
      "rs_qs spec" "rs_uri spec" log]
  show ?thesis
  proof
    assume "snd ?call = log"
    with assms s show ?thesis by (simp add: issued_def)
  next
    assume "\<exists>c hdr. getCredentials e = Some c \<and> authHeader c = Inr hdr \<and>
      snd ?call = log @ [request_options c hdr (rs_method spec) (rs_endpoint spec)
        (rs_body spec) (rs_qs spec) (rs_uri spec)]"
    then obtain c hdr where "getCredentials e = Some c" "authHeader c = Inr hdr"
      "snd ?call = log @ [request_options c hdr (rs_method spec) (rs_endpoint spec)
        (rs_body spec) (rs_qs spec) (rs_uri spec)]" by blast
    with assms s u Inr show ?thesis by (auto simp: issued_def)
  qed
qed

lemma issued_fields:
  assumes "req \<in> set (issued e it log)"
  shows "\<exists>spec. build_request e it = Inr spec \<and> req_qs req = rs_qs spec \<and>
           req_url req = rs_endpoint spec \<and> req_method req = rs_method spec \<and>
           req_body req = rs_body spec"
  using issued_request [OF assms] by (auto simp: request_options_def)

lemma hex_char_not_slash: "n < 16 \<Longrightarrow> hex_char n \<noteq> CHR ''/''"
proof -
  assume "n < 16"
  then have "hex_char n \<in> set ''0123456789ABCDEF''"
    unfolding hex_char_def by (intro nth_mem) simp
  then show ?thesis by auto
qed

lemma percent_byte_no_slash: "CHR ''/'' \<notin> set (percent_byte c)"
proof -
  have "x div 16 < 16" if "x < 256" for x :: nat
    using that by arith
  moreover have "(of_char c :: nat) < 256" by simp
  ultimately have "(of_char c :: nat) div 16 < 16" by blast
  then have hi: "hex_char (of_char c div 16) \<noteq> CHR ''/''"
    by (rule hex_char_not_slash)
  have "(of_char c :: nat) mod 16 < 16" by simp
  then have lo: "hex_char (of_char c mod 16) \<noteq> CHR ''/''"
    by (rule hex_char_not_slash)
  from hi lo show ?thesis
    unfolding percent_byte_def by auto
qed

lemma slash_reserved: "\<not> uri_unreserved CHR ''/''"
  by (simp add: uri_unreserved_def)

lemma uri_escape_no_slash: "CHR ''/'' \<notin> set (uri_escape s)"
  using percent_byte_no_slash slash_reserved
  by (auto simp: uri_escape_def split: if_splits)

lemma encodeURIComponent_no_slash:
  "encodeURIComponent s = Inr encoded \<Longrightarrow> CHR ''/'' \<notin> set encoded"
  using uri_escape_no_slash by (auto simp: encodeURIComponent_def split: if_splits)

lemma encodeURIComponent_example:
  "encodeURIComponent ''MyProject/Specification'' = Inr ''MyProject%2FSpecification''"
  by code_simp

lemma encodeURIComponent_lone_surrogate: "encodeURIComponent lone_surrogate = Inl uri_malformed"
  by (simp add: encodeURIComponent_def lone_surrogate_def)

lemma example_item_encodes:
  "encodeURIComponent (documentId example_item) = Inr ''MyProject%2FSpecification''"
  using encodeURIComponent_example by (simp add: example_item_def)

subsection \<open>The request helper\<close>

lemma base64_example: "base64 ''user:pass'' = ''dXNlcjpwYXNz''"
  by code_simp

text \<open>
  C4. When a credential is stored, the request helper hands the transport one request
  whose \<^verbatim>\<open>Authorization\<close> header is \<^verbatim>\<open>Basic\<close> and the base64 text of
  \<^verbatim>\<open>username:password\<close> under the method \<^verbatim>\<open>basic\<close>, and \<^verbatim>\<open>Bearer\<close> and the stored token
  under the token method (which the code names \<^verbatim>\<open>pat\<close>); under any other method it throws
  the invalid-authentication error and the request log is unchanged: no call is made.
  Every request the helper adds to the log carries the header built from the credential.
\<close>

theorem polarionApiRequest_authorization:
  assumes "getCredentials e = Some c"
  shows "(authentication c = ''basic'' \<longrightarrow>
            (\<exists>r req. polarionApiRequest e m p b q u log = (r, log @ [req]) \<and>
               map_of (req_headers req) ''Authorization''
                 = Some (''Basic '' @ base64 (username c @ '':'' @ password c)))) \<and>
         (authentication c = ''pat'' \<longrightarrow>
            (\<exists>r req. polarionApiRequest e m p b q u log = (r, log @ [req]) \<and>
               map_of (req_headers req) ''Authorization'' = Some (''Bearer '' @ pat c))) \<and>
         (authentication c \<noteq> ''basic'' \<longrightarrow> authentication c \<noteq> ''pat'' \<longrightarrow>
            polarionApiRequest e m p b q u log = (Inl invalid_authentication, log)) \<and>
         (\<forall>req \<in> set (drop (length log) (snd (polarionApiRequest e m p b q u log))).
            \<exists>hdr. authHeader c = Inr hdr \<and>
              map_of (req_headers req) ''Authorization'' = Some hdr)"
  using assms
  by (auto simp: polarionApiRequest_def authHeader_def request_options_def Let_def
           split: sum.splits)

theorem polarionApiRequest_authorization_witness:
  "(\<exists>r req. polarionApiRequest example_env GET ''/workItems'' [] [] None [] = (r, [req]) \<and>
      map_of (req_headers req) ''Authorization'' = Some ''Basic dXNlcjpwYXNz'') \<and>
   (\<exists>r req. polarionApiRequest
        (example_env\<lparr>getCredentials := Some (example_credentials\<lparr>authentication := ''pat''\<rparr>)\<rparr>)
        GET ''/workItems'' [] [] None [] = (r, [req]) \<and>
      map_of (req_headers req) ''Authorization'' = Some ''Bearer tok123'') \<and>
   polarionApiRequest
        (example_env\<lparr>getCredentials := Some (example_credentials\<lparr>authentication := ''token''\<rparr>)\<rparr>)
        GET ''/workItems'' [] [] None [] = (Inl invalid_authentication, [])"
proof -
  have basic: "getCredentials example_env = Some example_credentials"
    and "authentication example_credentials = ''basic''"
    by (simp_all add: example_env_def example_credentials_def)
  moreover have "base64 (username example_credentials @ '':'' @ password example_credentials)
      = ''dXNlcjpwYXNz''"
    using base64_example by (simp add: example_credentials_def)
  ultimately have 1: "\<exists>r req. polarionApiRequest example_env GET ''/workItems'' [] [] None []
      = (r, [req]) \<and> map_of (req_headers req) ''Authorization'' = Some ''Basic dXNlcjpwYXNz''"
    using polarionApiRequest_authorization
      [of example_env example_credentials GET "''/workItems''" "[]" "[]" None "[]"]
    by simp
  have 2: "\<exists>r req. polarionApiRequest
        (example_env\<lparr>getCredentials := Some (example_credentials\<lparr>authentication := ''pat''\<rparr>)\<rparr>)
        GET ''/workItems'' [] [] None [] = (r, [req]) \<and>
      map_of (req_headers req) ''Authorization'' = Some ''Bearer tok123''"
    using polarionApiRequest_authorization
      [of "example_env\<lparr>getCredentials := Some (example_credentials\<lparr>authentication := ''pat''\<rparr>)\<rparr>"
          "example_credentials\<lparr>authentication := ''pat''\<rparr>" GET "''/workItems''" "[]" "[]" None "[]"]
    by (simp add: example_credentials_def)
  have 3: "polarionApiRequest
        (example_env\<lparr>getCredentials := Some (example_credentials\<lparr>authentication := ''token''\<rparr>)\<rparr>)
        GET ''/workItems'' [] [] None [] = (Inl invalid_authentication, [])"
    using polarionApiRequest_authorization
      [of "example_env\<lparr>getCredentials := Some (example_credentials\<lparr>authentication := ''token''\<rparr>)\<rparr>"
          "example_credentials\<lparr>authentication := ''token''\<rparr>" GET "''/workItems''" "[]" "[]" None "[]"]
    by simp
  from 1 2 3 show ?thesis by blast
qed

subsection \<open>The dispatch table\<close>

lemma route_known:
  assumes "resource e \<in> set resource_tags"
    and "resource e = ''documents'' \<and> by_id (operation e) \<longrightarrow>
           encodeURIComponent (documentId it) = Inr encoded"
  shows "\<exists>r. route e it ep qs = Inr r"
  using assms by (auto simp: route_def resource_tags_def simple_resources_def)

lemma route_unknown:
  "resource e \<notin> set resource_tags \<Longrightarrow> route e it ep qs = Inl (routing_error (resource e))"
  by (auto simp: route_def resource_tags_def simple_resources_def)

lemma body_and_method_ok:
  assumes "operation e = ''create'' \<or> operation e = ''update'' \<longrightarrow> json_parse e (data it) = Inr v"
  shows "\<exists>body. body_and_method e it =
     Inr (body, if operation e = ''create'' then POST else if operation e = ''update'' then PUT
                else if operation e = ''delete'' then DELETE else GET)"
  using assms by (auto simp: body_and_method_def)

lemma build_request_from_parts:
  assumes "body_and_method e it = Inr (body, m)"
    and "route e it (''/'' @ resource e) (common_qs e (options it)) = Inr (ep, qs)"
  shows "build_request e it =
     Inr \<lparr> rs_method = m, rs_endpoint = ep, rs_body = body, rs_qs = qs, rs_uri = None \<rparr>"
  using assms by (simp add: build_request_def Let_def)

lemma build_request_succeeds:
  assumes "resource e \<in> set resource_tags"
    and "operation e = ''create'' \<or> operation e = ''update'' \<longrightarrow> json_parse e (data it) = Inr v"
    and "resource e = ''documents'' \<and> by_id (operation e) \<longrightarrow>
           encodeURIComponent (documentId it) = Inr encoded"
  shows "\<exists>spec. build_request e it = Inr spec"
proof -
  obtain body m where "body_and_method e it = Inr (body, m)"
    using body_and_method_ok [OF assms(2)] by blast
  moreover obtain ep qs
    where "route e it (''/'' @ resource e) (common_qs e (options it)) = Inr (ep, qs)"
    using route_known [OF assms(1,3)] by (metis surj_pair)
  ultimately show ?thesis
    using build_request_from_parts by blast
qed

lemma example_build_request:
  assumes "r \<in> set resource_tags" and "op \<noteq> ''create''" and "op \<noteq> ''update''"
    and "documentId it = documentId example_item"
  shows "\<exists>spec. build_request (example_env\<lparr>resource := r, operation := op\<rparr>) it = Inr spec"
  using assms example_item_encodes
    build_request_succeeds [of "example_env\<lparr>resource := r, operation := op\<rparr>" it _
      "''MyProject%2FSpecification''"]
  by simp

lemma example_env_eta:
  "example_env\<lparr>resource := ''workItems'', operation := op\<rparr> = example_env\<lparr>operation := op\<rparr>"
  "example_env\<lparr>operation := ''list''\<rparr> = example_env"
  by (simp_all add: example_env_def)

text \<open>
  C1, as the code has it. Whenever the payload of a create or update parses and, for get,
  update and delete on the documents, \<^verbatim>\<open>encodeURIComponent\<close> returns an encoding of the
  document identifier, every resource tag of the selector resolves, for every operation,
  to the method (\<^verbatim>\<open>GET\<close>, or \<^verbatim>\<open>POST\<close>, \<^verbatim>\<open>PUT\<close>, \<^verbatim>\<open>DELETE\<close> for create, update, delete) and
  to the path \<^verbatim>\<open>/{resource}\<close>, followed for get, update and delete by \<^verbatim>\<open>/\<close> and the
  resource's identifier (the work item's, the encoding of the document's, the project's,
  or the generic one); the \<^verbatim>\<open>query\<close> parameter is the PQL text on a work items list and
  absent otherwise. A resource tag outside the selector's values throws the routing error.
\<close>

theorem dispatch_table:
  assumes "operation e = ''create'' \<or> operation e = ''update'' \<longrightarrow> json_parse e (data it) = Inr v"
    and "resource e = ''documents'' \<and>
         (operation e = ''get'' \<or> operation e = ''update'' \<or> operation e = ''delete'') \<longrightarrow>
           encodeURIComponent (documentId it) = Inr encoded"
  shows "(resource e \<in> set resource_tags \<longrightarrow>
            (\<exists>spec. build_request e it = Inr spec \<and>
               rs_method spec =
                 (if operation e = ''create'' then POST else if operation e = ''update'' then PUT
                  else if operation e = ''delete'' then DELETE else GET) \<and>
               rs_endpoint spec =
                 (if operation e = ''get'' \<or> operation e = ''update'' \<or> operation e = ''delete''
                  then ''/'' @ resource e @ ''/'' @
                    (if resource e = ''workItems'' then workItemId it
                     else if resource e = ''documents'' then encoded
                     else if resource e = ''projects'' then projectId it
                     else resourceId it)
                  else ''/'' @ resource e) \<and>
               map_of (rs_qs spec) ''query'' =
                 (if resource e = ''workItems'' \<and> operation e = ''list''
                  then Some (JStr (query it)) else None))) \<and>
         (resource e \<notin> set resource_tags \<longrightarrow>
            build_request e it = Inl (routing_error (resource e)))"
    (is "(_ \<longrightarrow> (\<exists>spec. _ \<and> rs_method spec = ?m \<and> rs_endpoint spec = ?ep \<and>
            map_of (rs_qs spec) ''query'' = ?q)) \<and> _")
proof (intro conjI impI)
  obtain body where bm: "body_and_method e it = Inr (body, ?m)"
    using body_and_method_ok [OF assms(1)] by blast
  {
    assume "resource e \<notin> set resource_tags"
    then show "build_request e it = Inl (routing_error (resource e))"
      using bm by (simp add: build_request_def Let_def route_unknown)
  }
  assume known: "resource e \<in> set resource_tags"
  have enc: "resource e = ''documents'' \<and> by_id (operation e) \<longrightarrow>
      encodeURIComponent (documentId it) = Inr encoded"
    using assms(2) by (simp add: by_id_def)
  obtain ep qs
    where r: "route e it (''/'' @ resource e) (common_qs e (options it)) = Inr (ep, qs)"
    using route_known [OF known enc] by (metis surj_pair)
  let ?spec = "\<lparr> rs_method = ?m, rs_endpoint = ep, rs_body = body, rs_qs = qs, rs_uri = None \<rparr>"
  have b: "build_request e it = Inr ?spec"
    using build_request_from_parts [OF bm r] .
  have "resource e = ''documents'' \<and> by_id (operation e) \<longrightarrow> uri_escape (documentId it) = encoded"
    using route_encoded [OF r] enc by auto
  then have ep: "ep = ?ep"
    using route_endpoint [OF r] by (auto simp: by_id_def)
  have q: "map_of qs ''query'' = ?q"
    using route_qs [OF r] by (simp add: common_qs_lookup)
  show "\<exists>spec. build_request e it = Inr spec \<and> rs_method spec = ?m \<and>
      rs_endpoint spec = ?ep \<and> map_of (rs_qs spec) ''query'' = ?q"
    using b ep q by (intro exI [of _ ?spec]) simp
qed

theorem dispatch_table_witness:
  "(\<exists>spec. build_request (example_env\<lparr>resource := ''documents'', operation := ''update''\<rparr>)
        example_item = Inr spec \<and>
      rs_method spec = PUT \<and> rs_endpoint spec = ''/documents/MyProject%2FSpecification'' \<and>
      map_of (rs_qs spec) ''query'' = None) \<and>
   (\<exists>spec. build_request example_env example_item = Inr spec \<and>
      rs_method spec = GET \<and> rs_endpoint spec = ''/workItems'' \<and>
      map_of (rs_qs spec) ''query'' = Some (JStr ''status:open'')) \<and>
   build_request (example_env\<lparr>resource := ''widgets''\<rparr>) example_item
     = Inl (routing_error ''widgets'')"
proof -
  have p: "example_parse ''{}'' = Inr (JObj [])"
    by (simp add: example_parse_def)
  have d: "data example_item = ''{}''"
    by (simp add: example_item_def)
  have 1: "\<exists>spec. build_request (example_env\<lparr>resource := ''documents'', operation := ''update''\<rparr>)
        example_item = Inr spec \<and>
      rs_method spec = PUT \<and> rs_endpoint spec = ''/documents/MyProject%2FSpecification'' \<and>
      map_of (rs_qs spec) ''query'' = None"
    using dispatch_table [of "example_env\<lparr>resource := ''documents'', operation := ''update''\<rparr>"
        example_item "JObj []" "''MyProject%2FSpecification''"]
    by (simp add: example_env_def resource_tags_def p d example_item_encodes)
  have 2: "\<exists>spec. build_request example_env example_item = Inr spec \<and>
      rs_method spec = GET \<and> rs_endpoint spec = ''/workItems'' \<and>
      map_of (rs_qs spec) ''query'' = Some (JStr ''status:open'')"
    using dispatch_table [of example_env example_item "JObj []" "[]"]
    by (simp add: example_env_def resource_tags_def example_item_def)
  have 3: "build_request (example_env\<lparr>resource := ''widgets''\<rparr>) example_item
     = Inl (routing_error ''widgets'')"
    using dispatch_table [of "example_env\<lparr>resource := ''widgets''\<rparr>" example_item "JObj []" "[]"]
    by (simp add: example_env_def resource_tags_def)
  from 1 2 3 show ?thesis by blast
qed

theorem dispatch_table_counterexample:
  "build_request (example_env\<lparr>resource := ''documents'', operation := ''get''\<rparr>)
       (example_item\<lparr>documentId := lone_surrogate\<rparr>)
     = Inl uri_malformed \<and>
   execute (example_env\<lparr>resource := ''documents'', operation := ''get'', continueOnFail := False\<rparr>)
       [example_item\<lparr>documentId := lone_surrogate\<rparr>]
     = (Inl uri_malformed, [])"
  by (simp add: execute_def process_item_def build_request_def Let_def body_and_method_def
        route_def by_id_def encodeURIComponent_lone_surrogate example_env_def)

subsection \<open>Identifiers in the path\<close>

text \<open>
  C5. For get, update and delete the resolved path, which is the URL of the request
  issued, ends with the document identifier percent-encoded, so that it contains no
  \<^verbatim>\<open>/\<close>; the identifiers of the other resources are appended as they are.
\<close>

theorem identifier_in_path:
  assumes "build_request e it = Inr spec"
    and "operation e = ''get'' \<or> operation e = ''update'' \<or> operation e = ''delete''"
  shows "(resource e = ''documents'' \<longrightarrow>
            (\<exists>encoded. encodeURIComponent (documentId it) = Inr encoded \<and>
               rs_endpoint spec = ''/documents/'' @ encoded \<and>
               CHR ''/'' \<notin> set encoded)) \<and>
         (resource e = ''workItems'' \<longrightarrow> rs_endpoint spec = ''/workItems/'' @ workItemId it) \<and>
         (resource e = ''projects'' \<longrightarrow> rs_endpoint spec = ''/projects/'' @ projectId it) \<and>
         (resource e \<in> set simple_resources \<longrightarrow>
            rs_endpoint spec = ''/'' @ resource e @ ''/'' @ resourceId it) \<and>
         (\<forall>req \<in> set (issued e it log). req_url req = rs_endpoint spec)"
proof -
  from build_request_parts [OF assms(1)]
  have r: "route e it (''/'' @ resource e) (common_qs e (options it))
             = Inr (rs_endpoint spec, rs_qs spec)" by blast
  from route_endpoint [OF this] assms(2)
  have "rs_endpoint spec = ''/'' @ resource e @ ''/'' @
      (if resource e = ''workItems'' then workItemId it
       else if resource e = ''documents'' then uri_escape (documentId it)
       else if resource e = ''projects'' then projectId it
       else resourceId it)"
    by (simp add: by_id_def)
  moreover have "resource e = ''documents'' \<longrightarrow>
      encodeURIComponent (documentId it) = Inr (uri_escape (documentId it))"
    using route_encoded [OF r] assms(2) by (simp add: by_id_def)
  moreover have "\<forall>req \<in> set (issued e it log). req_url req = rs_endpoint spec"
    using issued_fields assms(1) by fastforce
  ultimately show ?thesis
    using uri_escape_no_slash by (auto simp: simple_resources_def)
qed


lemma issued_ok:
  assumes "build_request e it = Inr spec" and "getCredentials e = Some c"
    and "authHeader c = Inr hdr"
  shows "issued e it log =
     [request_options c hdr (rs_method spec) (rs_endpoint spec) (rs_body spec) (rs_qs spec) None]"
proof -
  have "rs_uri spec = None" using build_request_parts [OF assms(1)] by blast
  then show ?thesis
    using assms
    by (simp add: issued_def process_item_def polarionApiRequest_def Let_def
          split: sum.splits prod.splits)
qed

lemma example_authHeader: "\<exists>hdr. authHeader example_credentials = Inr hdr"
  by (simp add: authHeader_def example_credentials_def)

lemma example_issued:
  assumes "getCredentials e = Some example_credentials" and "build_request e it = Inr spec"
  shows "\<exists>req. req \<in> set (issued e it log)"
proof -
  obtain hdr where "authHeader example_credentials = Inr hdr"
    using example_authHeader by blast
  from issued_ok [OF assms(2) assms(1) this] show ?thesis by simp
qed

theorem identifier_in_path_witness:
  "(\<exists>spec. build_request (example_env\<lparr>resource := ''documents'', operation := ''get''\<rparr>)
       example_item = Inr spec \<and>
     rs_endpoint spec = ''/documents/MyProject%2FSpecification'' \<and>
     CHR ''/'' \<notin> set ''MyProject%2FSpecification'') \<and>
   (\<exists>spec. build_request (example_env\<lparr>operation := ''delete''\<rparr>) example_item = Inr spec \<and>
     rs_endpoint spec = ''/workItems/MyProject-123'') \<and>
   (\<exists>spec. build_request (example_env\<lparr>resource := ''projects'', operation := ''get''\<rparr>)
       example_item = Inr spec \<and>
     rs_endpoint spec = ''/projects/MyProject'') \<and>
   (\<exists>spec. build_request (example_env\<lparr>resource := ''testRuns'', operation := ''get''\<rparr>)
       example_item = Inr spec \<and>
     rs_endpoint spec = ''/testRuns/resource_id_123'')"
proof -
  obtain s1 where s1: "build_request (example_env\<lparr>resource := ''documents'', operation := ''get''\<rparr>)
       example_item = Inr s1"
    using example_build_request [of "''documents''" "''get''"] by (auto simp: resource_tags_def)
  obtain s2 where s2: "build_request (example_env\<lparr>operation := ''delete''\<rparr>) example_item = Inr s2"
    using example_build_request [of "''workItems''" "''delete''" example_item]
    by (auto simp: resource_tags_def example_env_eta)
  obtain s3 where s3: "build_request (example_env\<lparr>resource := ''projects'', operation := ''get''\<rparr>)
       example_item = Inr s3"
    using example_build_request [of "''projects''" "''get''"] by (auto simp: resource_tags_def)
  obtain s4 where s4: "build_request (example_env\<lparr>resource := ''testRuns'', operation := ''get''\<rparr>)
       example_item = Inr s4"
    using example_build_request [of "''testRuns''" "''get''"] by (auto simp: resource_tags_def)
  have 1: "rs_endpoint s1 = ''/documents/MyProject%2FSpecification'' \<and>
     CHR ''/'' \<notin> set ''MyProject%2FSpecification''"
    using identifier_in_path [OF s1, of "[]"]
    by (simp add: example_item_encodes)
  have 2: "rs_endpoint s2 = ''/workItems/MyProject-123''"
    using identifier_in_path [OF s2, of "[]"]
    by (simp add: example_item_def example_env_def)
  have 3: "rs_endpoint s3 = ''/projects/MyProject''"
    using identifier_in_path [OF s3, of "[]"]
    by (simp add: example_item_def)
  have 4: "rs_endpoint s4 = ''/testRuns/resource_id_123''"
    using identifier_in_path [OF s4, of "[]"]
    by (simp add: example_item_def simple_resources_def)
  from s1 s2 s3 s4 1 2 3 4 show ?thesis by blast
qed

subsection \<open>Query parameters\<close>

text \<open>
  C6. In every request issued for a list operation whose options have no \<^verbatim>\<open>limit\<close>, the
  query string has \<^verbatim>\<open>limit\<close> = 50, and \<^verbatim>\<open>skip\<close> = 0 when they have no \<^verbatim>\<open>skip\<close>; in every
  request issued for any other operation the query string has neither parameter.
\<close>

theorem list_paging_defaults:
  assumes "req \<in> set (issued e it log)"
  shows "(operation e = ''list'' \<longrightarrow> map_of (options it) ''limit'' = None \<longrightarrow>
            map_of (req_qs req) ''limit'' = Some (JNum 50)) \<and>
         (operation e = ''list'' \<longrightarrow> map_of (options it) ''skip'' = None \<longrightarrow>
            map_of (req_qs req) ''skip'' = Some (JNum 0)) \<and>
         (operation e \<noteq> ''list'' \<longrightarrow>
            map_of (req_qs req) ''limit'' = None \<and> map_of (req_qs req) ''skip'' = None)"
proof -
  obtain spec where "build_request e it = Inr spec" and "req_qs req = rs_qs spec"
    using issued_fields [OF assms] by blast
  then have "map_of (req_qs req) k =
     (if resource e = ''workItems'' \<and> operation e = ''list'' \<and> k = ''query''
      then Some (JStr (query it)) else map_of (common_qs e (options it)) k)" for k
    using build_request_qs by simp
  then show ?thesis
    by (simp add: common_qs_lookup get_prop_def js_or_def)
qed

theorem list_paging_defaults_witness:
  "(\<exists>req. req \<in> set (issued example_env example_item []) \<and>
      map_of (req_qs req) ''limit'' = Some (JNum 50) \<and>
      map_of (req_qs req) ''skip'' = Some (JNum 0)) \<and>
   (\<exists>req. req \<in> set (issued (example_env\<lparr>operation := ''get''\<rparr>) example_item []) \<and>
      map_of (req_qs req) ''limit'' = None \<and> map_of (req_qs req) ''skip'' = None)"
proof -
  have c: "getCredentials (example_env\<lparr>operation := op\<rparr>) = Some example_credentials" for op
    by (simp add: example_env_def)
  obtain s1 where s1: "build_request example_env example_item = Inr s1"
    using example_build_request [of "''workItems''" "''list''" example_item]
    by (auto simp: resource_tags_def example_env_eta)
  have "getCredentials example_env = Some example_credentials"
    by (simp add: example_env_def)
  from example_issued [OF this s1]
  obtain r1 where r1: "r1 \<in> set (issued example_env example_item [])" by blast
  obtain s2 where s2: "build_request (example_env\<lparr>operation := ''get''\<rparr>) example_item = Inr s2"
    using example_build_request [of "''workItems''" "''get''" example_item]
    by (auto simp: resource_tags_def example_env_eta)
  from example_issued [OF c s2]
  obtain r2 where r2: "r2 \<in> set (issued (example_env\<lparr>operation := ''get''\<rparr>) example_item [])"
    by blast
  have "map_of (req_qs r1) ''limit'' = Some (JNum 50) \<and>
      map_of (req_qs r1) ''skip'' = Some (JNum 0)"
    using list_paging_defaults [OF r1] by (simp add: example_env_def example_item_def)
  moreover have "map_of (req_qs r2) ''limit'' = None \<and> map_of (req_qs r2) ''skip'' = None"
    using list_paging_defaults [OF r2] by (simp add: example_env_def)
  ultimately show ?thesis using r1 r2 by blast
qed

lemma issued_qs:
  assumes "req \<in> set (issued e it log)"
  shows "map_of (req_qs req) k =
     (if resource e = ''workItems'' \<and> operation e = ''list'' \<and> k = ''query''
      then Some (JStr (query it)) else map_of (common_qs e (options it)) k)"
proof -
  obtain spec where "build_request e it = Inr spec" and "req_qs req = rs_qs spec"
    using issued_fields [OF assms] by blast
  then show ?thesis
    using build_request_qs by simp
qed

text \<open>
  C9. In every request issued for a list operation, a \<^verbatim>\<open>limit\<close> option that is falsy (0
  among them) is replaced by 50, and a truthy one is sent as it is; a \<^verbatim>\<open>skip\<close> option of
  0 gives the same \<^verbatim>\<open>skip\<close> = 0 as no option does, as does every other falsy value.
\<close>

theorem falsy_limit_replaced:
  assumes "req \<in> set (issued e it log)" and "operation e = ''list''"
  shows "(\<forall>v. map_of (options it) ''limit'' = Some v \<longrightarrow> \<not> truthy v \<longrightarrow>
            map_of (req_qs req) ''limit'' = Some (JNum 50)) \<and>
         (map_of (options it) ''limit'' = Some (JNum 0) \<longrightarrow>
            map_of (req_qs req) ''limit'' = Some (JNum 50)) \<and>
         (\<forall>v. map_of (options it) ''limit'' = Some v \<longrightarrow> truthy v \<longrightarrow>
            map_of (req_qs req) ''limit'' = Some v) \<and>
         (map_of (options it) ''skip'' = Some (JNum 0) \<longrightarrow>
            map_of (req_qs req) ''skip'' = Some (JNum 0)) \<and>
         (map_of (options it) ''skip'' = None \<longrightarrow>
            map_of (req_qs req) ''skip'' = Some (JNum 0)) \<and>
         (\<forall>v. map_of (options it) ''skip'' = Some v \<longrightarrow> \<not> truthy v \<longrightarrow>
            map_of (req_qs req) ''skip'' = Some (JNum 0))"
  using assms(2)
  by (simp add: issued_qs [OF assms(1)] common_qs_lookup get_prop_def js_or_def)

theorem falsy_limit_replaced_witness:
  "\<exists>req. req \<in> set (issued example_env
              (example_item\<lparr>options := [(''limit'', JNum 0), (''skip'', JNum 0)]\<rparr>) []) \<and>
     map_of (req_qs req) ''limit'' = Some (JNum 50) \<and>
     map_of (req_qs req) ''skip'' = Some (JNum 0)"
proof -
  let ?it = "example_item\<lparr>options := [(''limit'', JNum 0), (''skip'', JNum 0)]\<rparr>"
  obtain s where s: "build_request example_env ?it = Inr s"
    using example_build_request [of "''workItems''" "''list''" ?it]
    by (auto simp: resource_tags_def example_env_eta)
  have "getCredentials example_env = Some example_credentials"
    by (simp add: example_env_def)
  from example_issued [OF this s]
  obtain r where r: "r \<in> set (issued example_env ?it [])" by blast
  have "operation example_env = ''list''" by (simp add: example_env_def)
  from falsy_limit_replaced [OF r this]
  have "map_of (req_qs r) ''limit'' = Some (JNum 50) \<and> map_of (req_qs r) ''skip'' = Some (JNum 0)"
    by simp
  with r show ?thesis by blast
qed

text \<open>
  C10. In every request issued, whatever the operation, a non-empty \<^verbatim>\<open>fields\<close> string of
  the options is the \<^verbatim>\<open>fields\<close> parameter of the query string; with an empty string, or
  with no such option, the query string has no \<^verbatim>\<open>fields\<close> parameter.
\<close>

theorem fields_any_operation:
  assumes "req \<in> set (issued e it log)"
  shows "(\<forall>f. map_of (options it) ''fields'' = Some (JStr f) \<longrightarrow> f \<noteq> [] \<longrightarrow>
            map_of (req_qs req) ''fields'' = Some (JStr f)) \<and>
         (map_of (options it) ''fields'' = Some (JStr []) \<longrightarrow>
            map_of (req_qs req) ''fields'' = None) \<and>
         (map_of (options it) ''fields'' = None \<longrightarrow> map_of (req_qs req) ''fields'' = None)"
  by (simp add: issued_qs [OF assms] common_qs_lookup get_prop_def)

theorem fields_any_operation_witness:
  "(\<exists>req. req \<in> set (issued (example_env\<lparr>operation := ''delete''\<rparr>)
              (example_item\<lparr>options := [(''fields'', JStr ''id,title'')]\<rparr>) []) \<and>
      req_method req = DELETE \<and>
      map_of (req_qs req) ''fields'' = Some (JStr ''id,title'')) \<and>
   (\<exists>req. req \<in> set (issued (example_env\<lparr>operation := ''create''\<rparr>)
              (example_item\<lparr>options := [(''fields'', JStr ''id,title'')]\<rparr>) []) \<and>
      req_method req = POST \<and>
      map_of (req_qs req) ''fields'' = Some (JStr ''id,title'')) \<and>
   (\<exists>req. req \<in> set (issued (example_env\<lparr>operation := ''get''\<rparr>)
              (example_item\<lparr>options := [(''fields'', JStr [])]\<rparr>) []) \<and>
      map_of (req_qs req) ''fields'' = None)"
proof -
  let ?f = "example_item\<lparr>options := [(''fields'', JStr ''id,title'')]\<rparr>"
  let ?n = "example_item\<lparr>options := [(''fields'', JStr [])]\<rparr>"
  have c: "getCredentials (example_env\<lparr>operation := op\<rparr>) = Some example_credentials" for op
    by (simp add: example_env_def)
  have "json_parse (example_env\<lparr>operation := ''create''\<rparr>) (data ?f) = Inr (JObj [])"
    by (simp add: example_env_def example_item_def example_parse_def)
  then obtain s2 where s2: "build_request (example_env\<lparr>operation := ''create''\<rparr>) ?f = Inr s2"
    using build_request_succeeds [of "example_env\<lparr>operation := ''create''\<rparr>" ?f "JObj []"]
    by (auto simp: example_env_def resource_tags_def)
  obtain s1 where s1: "build_request (example_env\<lparr>operation := ''delete''\<rparr>) ?f = Inr s1"
    using example_build_request [of "''workItems''" "''delete''" ?f]
    by (auto simp: resource_tags_def example_env_eta)
  obtain s3 where s3: "build_request (example_env\<lparr>operation := ''get''\<rparr>) ?n = Inr s3"
    using example_build_request [of "''workItems''" "''get''" ?n]
    by (auto simp: resource_tags_def example_env_eta)
  from example_issued [OF c s1]
  obtain r1 where r1: "r1 \<in> set (issued (example_env\<lparr>operation := ''delete''\<rparr>) ?f [])" by blast
  from example_issued [OF c s2]
  obtain r2 where r2: "r2 \<in> set (issued (example_env\<lparr>operation := ''create''\<rparr>) ?f [])" by blast
  from example_issued [OF c s3]
  obtain r3 where r3: "r3 \<in> set (issued (example_env\<lparr>operation := ''get''\<rparr>) ?n [])" by blast
  have m1: "req_method r1 = DELETE"
    using issued_fields [OF r1] by (auto simp: build_request_def body_and_method_def Let_def
      example_env_def split: sum.splits prod.splits)
  have m2: "req_method r2 = POST"
    using issued_fields [OF r2] by (auto simp: build_request_def body_and_method_def Let_def
      example_env_def split: sum.splits prod.splits)
  have "map_of (req_qs r1) ''fields'' = Some (JStr ''id,title'')"
    using fields_any_operation [OF r1] by simp
  moreover have "map_of (req_qs r2) ''fields'' = Some (JStr ''id,title'')"
    using fields_any_operation [OF r2] by simp
  moreover have "map_of (req_qs r3) ''fields'' = None"
    using fields_any_operation [OF r3] by simp
  ultimately show ?thesis using r1 r2 r3 m1 m2 by blast
qed

subsection \<open>The payload of create and update\<close>

lemma js_set_keeps_proto:
  "map_of t ''__proto__'' = None \<Longrightarrow> map_of (js_set t k v) ''__proto__'' = None"
  by (simp add: js_set_def map_of_obj_set)

lemma fold_js_set_lookup:
  assumes "map_of t ''__proto__'' = None"
  shows "map_of (fold (\<lambda>k t. js_set t k (f k)) ks t) k =
     (if k \<in> set ks \<and> k \<noteq> ''__proto__'' then Some (f k) else map_of t k)"
  using assms
proof (induction ks arbitrary: t)
  case Nil
  then show ?case by simp
next
  case (Cons a ks)
  have "map_of (js_set t a (f a)) ''__proto__'' = None"
    using Cons.prems by (rule js_set_keeps_proto)
  from Cons.IH [OF this] Cons.prems show ?case
    by (auto simp: js_set_def map_of_obj_set)
qed

lemma get_prop_Some: "map_of obj k = Some v \<Longrightarrow> get_prop obj k = v"
  by (simp add: get_prop_def)

lemma object_assign_lookup:
  "map_of (object_assign [] source) k =
     (if k = ''__proto__'' then None else map_of (own_props source) k)"
proof (cases "map_of (own_props source) k")
  case None
  then have "k \<notin> set (map fst (own_props source))"
    by (simp add: map_of_eq_None_iff)
  with None show ?thesis
    by (simp add: object_assign_def fold_js_set_lookup)
next
  case (Some v)
  then have "k \<in> set (map fst (own_props source))"
    by (metis map_of_eq_None_iff option.distinct(1) set_map)
  with Some show ?thesis
    by (simp add: object_assign_def fold_js_set_lookup get_prop_Some)
qed

lemma obj_set_fresh: "k \<notin> fst ` set t \<Longrightarrow> obj_set t k v = t @ [(k, v)]"
  by (induction t) auto

lemma fold_js_set_fresh:
  assumes "distinct ks" and "set ks \<inter> fst ` set t = {}" and "''__proto__'' \<notin> fst ` set t"
  shows "fold (\<lambda>k t. js_set t k (f k)) ks t =
     t @ map (\<lambda>k. (k, f k)) (filter (\<lambda>k. k \<noteq> ''__proto__'') ks)"
  using assms
proof (induction ks arbitrary: t)
  case Nil
  then show ?case by simp
next
  case (Cons k ks)
  show ?case
  proof (cases "k = ''__proto__''")
    case True
    have "map_of t ''__proto__'' = None"
      using Cons.prems(3) by (simp add: map_of_eq_None_iff)
    then have "js_set t k (f k) = t"
      using True by (simp add: js_set_def)
    moreover have "distinct ks" and "set ks \<inter> fst ` set t = {}"
      using Cons.prems by auto
    ultimately show ?thesis
      using Cons.IH [of t] Cons.prems(3) True by simp
  next
    case False
    have fresh: "k \<notin> fst ` set t" using Cons.prems by auto
    then have step: "js_set t k (f k) = t @ [(k, f k)]"
      using False by (simp add: js_set_def obj_set_fresh)
    have "distinct ks" and "set ks \<inter> fst ` set (t @ [(k, f k)]) = {}"
      and "''__proto__'' \<notin> fst ` set (t @ [(k, f k)])"
      using Cons.prems False by auto
    from Cons.IH [OF this] step False show ?thesis by simp
  qed
qed

lemma get_prop_distinct:
  "distinct (map fst kvs) \<Longrightarrow> map (\<lambda>k. (k, get_prop kvs k)) (map fst kvs) = kvs"
proof (induction kvs)
  case Nil
  then show ?case by simp
next
  case (Cons p kvs)
  obtain k v where p: "p = (k, v)" by (cases p)
  have "map (\<lambda>k'. (k', get_prop (p # kvs) k')) (map fst kvs)
      = map (\<lambda>k'. (k', get_prop kvs k')) (map fst kvs)"
    using Cons.prems p by (intro map_cong) (auto simp: get_prop_def)
  with Cons p show ?case by (simp add: get_prop_def)
qed

lemma object_assign_object:
  assumes "distinct (map fst kvs)"
  shows "object_assign [] (JObj kvs) = filter (\<lambda>p. fst p \<noteq> ''__proto__'') kvs"
proof -
  let ?g = "\<lambda>k. (k, get_prop kvs k)"
  have "fold (\<lambda>k t. js_set t k (get_prop kvs k)) (map fst kvs) []
      = [] @ map ?g (filter (\<lambda>k. k \<noteq> ''__proto__'') (map fst kvs))"
    using assms by (intro fold_js_set_fresh) simp_all
  also have "\<dots> = filter (\<lambda>p. fst p \<noteq> ''__proto__'') (map ?g (map fst kvs))"
    by (simp add: filter_map comp_def)
  also have "\<dots> = filter (\<lambda>p. fst p \<noteq> ''__proto__'') kvs"
    by (simp only: get_prop_distinct [OF assms])
  finally show ?thesis
    by (simp only: object_assign_def own_props.simps)
qed

lemma filter_no_proto:
  "map_of kvs ''__proto__'' = None \<Longrightarrow> filter (\<lambda>p. fst p \<noteq> ''__proto__'') kvs = kvs"
  by (force simp: map_of_eq_None_iff filter_id_conv)

lemma body_and_method_payload:
  assumes "operation e = ''create'' \<or> operation e = ''update''"
  shows "body_and_method e it =
     (case json_parse e (data it) of
        Inl msg \<Rightarrow> Inl (SyntaxError msg)
      | Inr v \<Rightarrow> Inr (object_assign [] v, if operation e = ''create'' then POST else PUT))"
  using assms by (auto simp: body_and_method_def)

text \<open>
  C8, as the code has it. For a create or an update: when the payload text does not
  parse, the iteration throws the parser's error before any request, so that under
  fail-tolerant mode the loop records \<^verbatim>\<open>{error, itemIndex}\<close> and goes on with the next
  item, and otherwise stops with that error. When it parses, the request resolved (there
  is one for every resource tag of the selector, provided the identifier of a document to
  update can be encoded) has method \<^verbatim>\<open>POST\<close> for create and \<^verbatim>\<open>PUT\<close> for update, and its
  body has every property of the parsed value whose name is not \<^verbatim>\<open>__proto__\<close>, and no
  other of another name: a parsed object that has no \<^verbatim>\<open>__proto__\<close> key is the body.
  Method and body are those of the request issued.
\<close>

theorem payload_parsed:
  assumes "operation e = ''create'' \<or> operation e = ''update''"
  shows "(\<forall>msg. json_parse e (data it) = Inl msg \<longrightarrow>
            process_item e it log = (Inl (SyntaxError msg), log) \<and>
            (continueOnFail e \<longrightarrow>
               execute_loop e i (it # items) returnData log =
                 execute_loop e (Suc i) items
                   (returnData @ [JObj [(''error'', JStr msg), (''itemIndex'', JNum (int i))]])
                   log) \<and>
            (\<not> continueOnFail e \<longrightarrow>
               execute_loop e i (it # items) returnData log = (Inl (SyntaxError msg), log))) \<and>
         (\<forall>v. json_parse e (data it) = Inr v \<longrightarrow>
            (resource e \<in> set resource_tags \<longrightarrow>
             (resource e = ''documents'' \<and> operation e = ''update'' \<longrightarrow>
                (\<exists>encoded. encodeURIComponent (documentId it) = Inr encoded)) \<longrightarrow>
             (\<exists>spec. build_request e it = Inr spec)) \<and>
            (\<forall>spec. build_request e it = Inr spec \<longrightarrow>
               rs_method spec = (if operation e = ''create'' then POST else PUT) \<and>
               (\<forall>k. k \<noteq> ''__proto__'' \<longrightarrow>
                  map_of (rs_body spec) k = map_of (own_props v) k) \<and>
               (\<forall>kvs. v = JObj kvs \<longrightarrow> map_of kvs ''__proto__'' = None \<longrightarrow>
                  map_of (rs_body spec) = map_of kvs \<and>
                  (distinct (map fst kvs) \<longrightarrow> rs_body spec = kvs)) \<and>
               (\<forall>req \<in> set (issued e it log).
                  req_method req = rs_method spec \<and> req_body req = rs_body spec)))"
proof (intro conjI allI impI)
  fix msg
  assume "json_parse e (data it) = Inl msg"
  then have "build_request e it = Inl (SyntaxError msg)"
    by (simp add: build_request_def Let_def body_and_method_payload [OF assms])
  then show p: "process_item e it log = (Inl (SyntaxError msg), log)"
    by (simp add: process_item_def)
  {
    assume "continueOnFail e"
    with p show "execute_loop e i (it # items) returnData log =
        execute_loop e (Suc i) items
          (returnData @ [JObj [(''error'', JStr msg), (''itemIndex'', JNum (int i))]]) log"
      by (simp add: error_record_def)
  }
  assume "\<not> continueOnFail e"
  with p show "execute_loop e i (it # items) returnData log = (Inl (SyntaxError msg), log)"
    by simp
next
  fix v
  assume v: "json_parse e (data it) = Inr v"
  {
    assume known: "resource e \<in> set resource_tags"
      and "resource e = ''documents'' \<and> operation e = ''update'' \<longrightarrow>
        (\<exists>encoded. encodeURIComponent (documentId it) = Inr encoded)"
    then obtain encoded where "resource e = ''documents'' \<and> by_id (operation e) \<longrightarrow>
        encodeURIComponent (documentId it) = Inr encoded"
      using assms by (auto simp: by_id_def)
    with known v show "\<exists>spec. build_request e it = Inr spec"
      using build_request_succeeds [of e it v encoded] by blast
  }
  fix spec
  assume b: "build_request e it = Inr spec"
  then have bm: "body_and_method e it = Inr (rs_body spec, rs_method spec)"
    using build_request_parts by blast
  with v have eq: "rs_body spec = object_assign [] v"
    and m: "rs_method spec = (if operation e = ''create'' then POST else PUT)"
    by (simp_all add: body_and_method_payload [OF assms])
  from m show "rs_method spec = (if operation e = ''create'' then POST else PUT)" .
  {
    fix k :: string
    assume "k \<noteq> ''__proto__''"
    then show "map_of (rs_body spec) k = map_of (own_props v) k"
      unfolding eq by (simp add: object_assign_lookup)
  }
  {
    fix kvs
    assume o: "v = JObj kvs" and n: "map_of kvs ''__proto__'' = None"
    show "map_of (rs_body spec) = map_of kvs"
    proof (rule ext)
      fix k
      show "map_of (rs_body spec) k = map_of kvs k"
        unfolding eq using o n by (simp add: object_assign_lookup)
    qed
    assume "distinct (map fst kvs)"
    with eq o n show "rs_body spec = kvs"
      by (simp add: object_assign_object filter_no_proto)
  }
  show "\<forall>req \<in> set (issued e it log).
      req_method req = rs_method spec \<and> req_body req = rs_body spec"
    using issued_fields b by fastforce
qed

lemma example_parse_texts:
  "example_parse example_payload = Inr (JObj [(''title'', JStr ''Fix'')])"
  "example_parse ''{title:'' = Inl ''Unexpected end of JSON input''"
  "example_parse ''[7]'' = Inr (JArr [JNum 7])"
  "example_parse proto_payload =
     Inr (JObj [(''__proto__'', JObj [(''admin'', JBool True)]), (''title'', JStr ''Fix'')])"
  by (simp_all add: example_parse_def example_payload_def proto_payload_def)

theorem payload_parsed_counterexample:
  "json_parse (example_env\<lparr>operation := ''create''\<rparr>) (data (example_item\<lparr>data := proto_payload\<rparr>))
     = Inr (JObj [(''__proto__'', JObj [(''admin'', JBool True)]), (''title'', JStr ''Fix'')]) \<and>
   build_request (example_env\<lparr>operation := ''create''\<rparr>) (example_item\<lparr>data := proto_payload\<rparr>)
     = Inr \<lparr> rs_method = POST, rs_endpoint = ''/workItems'',
             rs_body = [(''title'', JStr ''Fix'')], rs_qs = [], rs_uri = None \<rparr>"
  by (simp add: build_request_def Let_def body_and_method_def route_def by_id_def common_qs_def
        get_prop_def object_assign_def js_set_def example_env_def example_item_def
        example_parse_texts)

theorem payload_parsed_witness:
  "execute (example_env\<lparr>operation := ''create''\<rparr>) [example_item\<lparr>data := ''{title:''\<rparr>]
     = (Inr [JObj [(''error'', JStr ''Unexpected end of JSON input''), (''itemIndex'', JNum 0)]],
        []) \<and>
   execute (example_env\<lparr>operation := ''update'', continueOnFail := False\<rparr>)
       [example_item\<lparr>data := ''{title:''\<rparr>]
     = (Inl (SyntaxError ''Unexpected end of JSON input''), []) \<and>
   (\<exists>spec. build_request (example_env\<lparr>operation := ''create''\<rparr>)
        (example_item\<lparr>data := example_payload\<rparr>) = Inr spec \<and>
      rs_method spec = POST \<and> rs_body spec = [(''title'', JStr ''Fix'')]) \<and>
   (\<exists>spec. build_request (example_env\<lparr>operation := ''update''\<rparr>)
        (example_item\<lparr>data := ''[7]''\<rparr>) = Inr spec \<and>
      rs_method spec = PUT \<and> map_of (rs_body spec) ''0'' = Some (JNum 7))"
proof -
  let ?bad = "example_item\<lparr>data := ''{title:''\<rparr>"
  let ?c = "example_env\<lparr>operation := ''create''\<rparr>"
  let ?u = "example_env\<lparr>operation := ''update''\<rparr>"
  let ?u' = "example_env\<lparr>operation := ''update'', continueOnFail := False\<rparr>"
  have "operation ?c = ''create'' \<or> operation ?c = ''update''" by simp
  from payload_parsed [OF this, of ?bad "[]" 0 "[]" "[]"]
  have "execute_loop ?c 0 [?bad] [] [] =
      execute_loop ?c (Suc 0) []
        ([] @ [JObj [(''error'', JStr ''Unexpected end of JSON input''),
                     (''itemIndex'', JNum (int 0))]]) []"
    by (simp add: example_env_def example_parse_texts del: execute_loop.simps)
  then have 1: "execute ?c [?bad]
     = (Inr [JObj [(''error'', JStr ''Unexpected end of JSON input''), (''itemIndex'', JNum 0)]], [])"
    by (simp add: execute_def del: execute_loop.simps(2))
  have "operation ?u' = ''create'' \<or> operation ?u' = ''update''" by simp
  from payload_parsed [OF this, of ?bad "[]" 0 "[]" "[]"]
  have "execute_loop ?u' 0 [?bad] [] [] = (Inl (SyntaxError ''Unexpected end of JSON input''), [])"
    by (simp add: example_env_def example_parse_texts del: execute_loop.simps)
  then have 2: "execute ?u' [?bad] = (Inl (SyntaxError ''Unexpected end of JSON input''), [])"
    by (simp add: execute_def del: execute_loop.simps(2))
  have 3: "\<exists>spec. build_request ?c (example_item\<lparr>data := example_payload\<rparr>) = Inr spec \<and>
      rs_method spec = POST \<and> rs_body spec = [(''title'', JStr ''Fix'')]"
    using payload_parsed [of ?c "example_item\<lparr>data := example_payload\<rparr>" "[]"]
    by (simp add: example_env_def example_parse_texts resource_tags_def) blast
  have d: "decimal 0 = ''0''" by code_simp
  have 4: "\<exists>spec. build_request ?u (example_item\<lparr>data := ''[7]''\<rparr>) = Inr spec \<and>
      rs_method spec = PUT \<and> map_of (rs_body spec) ''0'' = Some (JNum 7)"
    using payload_parsed [of ?u "example_item\<lparr>data := ''[7]''\<rparr>" "[]"]
    by (simp add: example_env_def example_parse_texts resource_tags_def d) fastforce
  from 1 2 3 4 show ?thesis by blast
qed

subsection \<open>Normalising the response\<close>

text \<open>
  C7, as the code has it. A response that is \<^verbatim>\<open>null\<close> or \<^verbatim>\<open>undefined\<close> makes the read of
  its \<^verbatim>\<open>data\<close> property throw. For every other response of the request helper the
  iteration appends to the output: the elements of the \<^verbatim>\<open>data\<close> property when the
  response is an object that has one and it is an array; else the elements of the response
  when it is an array; else the response, as one record.
\<close>

theorem response_normalized:
  assumes "build_request e it = Inr spec"
    and "polarionApiRequest e (rs_method spec) (rs_endpoint spec) (rs_body spec) (rs_qs spec)
           (rs_uri spec) log = (Inr responseData, log')"
    and "responseData \<noteq> JNull" and "responseData \<noteq> JUndefined"
  shows "\<exists>records.
           records =
             (case responseData of
                JObj kvs \<Rightarrow>
                  (case map_of kvs ''data'' of Some (JArr xs) \<Rightarrow> xs | _ \<Rightarrow> [responseData])
              | JArr xs \<Rightarrow> xs
              | _ \<Rightarrow> [responseData]) \<and>
           normalize responseData = Inr records \<and>
           process_item e it log = (Inr records, log') \<and>
           execute_loop e i (it # items) returnData log =
             execute_loop e (Suc i) items (returnData @ records) log'"
proof -
  have n: "normalize responseData =
      Inr (case responseData of
             JObj kvs \<Rightarrow>
               (case map_of kvs ''data'' of Some (JArr xs) \<Rightarrow> xs | _ \<Rightarrow> [responseData])
           | JArr xs \<Rightarrow> xs
           | _ \<Rightarrow> [responseData])"
    using assms(3,4)
    by (cases responseData)
       (auto simp: normalize_def get_prop_def split: option.splits jsval.splits)
  have "process_item e it log = (normalize responseData, log')"
    using assms(1,2) by (simp add: process_item_def)
  with n show ?thesis by simp
qed

theorem response_null_counterexample:
  "normalize JNull = Inl (cannot_read_data ''null'') \<and>
   normalize JNull \<noteq> Inr [JNull] \<and>
   fst (execute (example_env\<lparr>operation := ''delete'', continueOnFail := False\<rparr>) [example_item])
     = Inl (cannot_read_data ''null'')"
  by (simp add: normalize_def execute_def process_item_def build_request_def Let_def
        body_and_method_def route_def by_id_def common_qs_def polarionApiRequest_def
        authHeader_def request_options_def example_env_def example_credentials_def
        example_transport_def example_item_def split: prod.splits)


lemma example_response:
  assumes "getCredentials e = Some example_credentials" and "transport e = example_transport"
    and "build_request e it = Inr spec"
    and "\<And>hdr. example_transport log
           (request_options example_credentials hdr (rs_method spec) (rs_endpoint spec)
              (rs_body spec) (rs_qs spec) (rs_uri spec)) = Inr r"
  shows "\<exists>log'. polarionApiRequest e (rs_method spec) (rs_endpoint spec) (rs_body spec)
           (rs_qs spec) (rs_uri spec) log = (Inr r, log')"
proof -
  obtain hdr where "authHeader example_credentials = Inr hdr"
    using example_authHeader by blast
  with assms show ?thesis
    by (simp add: polarionApiRequest_def Let_def)
qed

lemma example_specs:
  "build_request example_env example_item =
     Inr \<lparr> rs_method = GET, rs_endpoint = ''/workItems'', rs_body = [],
           rs_qs = [(''limit'', JNum 50), (''skip'', JNum 0), (''query'', JStr ''status:open'')],
           rs_uri = None \<rparr>"
  "build_request (example_env\<lparr>resource := ''projects''\<rparr>) example_item =
     Inr \<lparr> rs_method = GET, rs_endpoint = ''/projects'', rs_body = [],
           rs_qs = [(''limit'', JNum 50), (''skip'', JNum 0)], rs_uri = None \<rparr>"
  "build_request (example_env\<lparr>operation := ''get''\<rparr>) example_item =
     Inr \<lparr> rs_method = GET, rs_endpoint = ''/workItems/MyProject-123'', rs_body = [],
           rs_qs = [], rs_uri = None \<rparr>"
  by (simp_all add: build_request_def Let_def body_and_method_def route_def by_id_def
        common_qs_def get_prop_def js_or_def example_env_def example_item_def)

theorem response_normalized_witness:
  "(\<exists>log'. process_item example_env example_item []
      = (Inr [JObj [(''id'', JStr ''A'')], JObj [(''id'', JStr ''B'')]], log')) \<and>
   (\<exists>log'. process_item (example_env\<lparr>resource := ''projects''\<rparr>) example_item []
      = (Inr [JObj [(''id'', JStr ''P'')], JObj [(''id'', JStr ''Q'')]], log')) \<and>
   (\<exists>log'. process_item (example_env\<lparr>operation := ''get''\<rparr>) example_item []
      = (Inr [JObj [(''id'', JStr ''A'')]], log'))"
proof -
  have c: "getCredentials example_env = Some example_credentials"
    "getCredentials (example_env\<lparr>resource := ''projects''\<rparr>) = Some example_credentials"
    "getCredentials (example_env\<lparr>operation := ''get''\<rparr>) = Some example_credentials"
    and t: "transport example_env = example_transport"
    "transport (example_env\<lparr>resource := ''projects''\<rparr>) = example_transport"
    "transport (example_env\<lparr>operation := ''get''\<rparr>) = example_transport"
    by (simp_all add: example_env_def)
  obtain l1 where "polarionApiRequest example_env GET ''/workItems'' []
      [(''limit'', JNum 50), (''skip'', JNum 0), (''query'', JStr ''status:open'')] None []
      = (Inr (JObj [(''data'', JArr [JObj [(''id'', JStr ''A'')], JObj [(''id'', JStr ''B'')]])]), l1)"
    using example_response [OF c(1) t(1) example_specs(1), of "[]"]
    by (auto simp: example_transport_def request_options_def)
  from response_normalized [OF example_specs(1), of "[]" _ l1] this
  have 1: "\<exists>log'. process_item example_env example_item []
      = (Inr [JObj [(''id'', JStr ''A'')], JObj [(''id'', JStr ''B'')]], log')"
    by simp
  obtain l2 where "polarionApiRequest (example_env\<lparr>resource := ''projects''\<rparr>) GET ''/projects'' []
      [(''limit'', JNum 50), (''skip'', JNum 0)] None []
      = (Inr (JArr [JObj [(''id'', JStr ''P'')], JObj [(''id'', JStr ''Q'')]]), l2)"
    using example_response [OF c(2) t(2) example_specs(2), of "[]"]
    by (auto simp: example_transport_def request_options_def)
  from response_normalized [OF example_specs(2), of "[]" _ l2] this
  have 2: "\<exists>log'. process_item (example_env\<lparr>resource := ''projects''\<rparr>) example_item []
      = (Inr [JObj [(''id'', JStr ''P'')], JObj [(''id'', JStr ''Q'')]], log')"
    by simp
  obtain l3 where "polarionApiRequest (example_env\<lparr>operation := ''get''\<rparr>) GET
      ''/workItems/MyProject-123'' [] [] None []
      = (Inr (JObj [(''id'', JStr ''A'')]), l3)"
    using example_response [OF c(3) t(3) example_specs(3), of "[]"]
    by (auto simp: example_transport_def request_options_def)
  from response_normalized [OF example_specs(3), of "[]" _ l3] this
  have 3: "\<exists>log'. process_item (example_env\<lparr>operation := ''get''\<rparr>) example_item []
      = (Inr [JObj [(''id'', JStr ''A'')]], log')"
    by simp
  from 1 2 3 show ?thesis by blast
qed

subsection \<open>The loop\<close>

lemma execute_loop_returnData:
  "execute_loop e i items returnData log =
     (case execute_loop e i items [] log of
        (Inl err, log') \<Rightarrow> (Inl err, log')
      | (Inr out, log') \<Rightarrow> (Inr (returnData @ out), log'))"
proof (induction items arbitrary: i returnData log)
  case Nil
  then show ?case by simp
next
  case (Cons it items)
  obtain r log' where p: "process_item e it log = (r, log')"
    by (cases "process_item e it log")
  show ?case
  proof (cases r)
    case (Inl err)
    show ?thesis
    proof (cases "continueOnFail e")
      case True
      with p Inl show ?thesis
        using Cons.IH [of "Suc i" "returnData @ [error_record err i]" log']
          Cons.IH [of "Suc i" "[error_record err i]" log']
        by (simp split: prod.splits sum.splits)
    next
      case False
      with p Inl show ?thesis by simp
    qed
  next
    case (Inr records)
    with p show ?thesis
      using Cons.IH [of "Suc i" "returnData @ records" log']
        Cons.IH [of "Suc i" records log']
      by (simp split: prod.splits sum.splits)
  qed
qed

lemma execute_loop_append:
  "execute_loop e i (xs @ ys) returnData log =
     (case execute_loop e i xs returnData log of
        (Inl err, log') \<Rightarrow> (Inl err, log')
      | (Inr out, log') \<Rightarrow> execute_loop e (i + length xs) ys out log')"
proof (induction xs arbitrary: i returnData log)
  case Nil
  then show ?case by simp
next
  case (Cons it xs)
  then show ?case
    by (simp split: prod.splits sum.splits)
qed

lemma execute_loop_tolerant:
  "continueOnFail e \<Longrightarrow> \<exists>out log'. execute_loop e i items returnData log = (Inr out, log')"
proof (induction items arbitrary: i returnData log)
  case Nil
  then show ?case by simp
next
  case (Cons it items)
  then show ?case
    by (simp split: prod.splits sum.splits)
qed

text \<open>
  C2, as the code has it. Take the item at index \<open>length pre\<close>, failing after the items
  before it have pushed the records \<open>out1\<close>. Under fail-tolerant mode the output is
  \<open>out1\<close>, then the one record \<^verbatim>\<open>{error, itemIndex}\<close> with the error's message and that
  index, then the records of the items after it: as many records as items exactly when
  the other items push as many records as they are. Without it the execution throws that
  error: it returns no record, and the requests issued are those up to the failing item,
  none for a later one.
\<close>

theorem one_failing_item:
  assumes "execute_loop e 0 pre [] [] = (Inr out1, log1)"
    and "process_item e it log1 = (Inl err, log2)"
  shows "(continueOnFail e \<longrightarrow>
            (\<exists>out3 log3.
               execute_loop e (Suc (length pre)) post [] log2 = (Inr out3, log3) \<and>
               execute e (pre @ it # post) =
                 (Inr (out1 @ [JObj [(''error'', JStr (message err)),
                                     (''itemIndex'', JNum (int (length pre)))]] @ out3),
                  log3) \<and>
               (length (out1 @ [JObj [(''error'', JStr (message err)),
                                      (''itemIndex'', JNum (int (length pre)))]] @ out3)
                  = length (pre @ it # post) \<longleftrightarrow>
                length out1 + length out3 = length pre + length post))) \<and>
         (\<not> continueOnFail e \<longrightarrow> execute e (pre @ it # post) = (Inl err, log2))"
proof (intro conjI impI)
  have split: "execute e (pre @ it # post) = execute_loop e (length pre) (it # post) out1 log1"
    using assms(1) by (simp add: execute_def execute_loop_append)
  {
    assume "\<not> continueOnFail e"
    with assms(2) split show "execute e (pre @ it # post) = (Inl err, log2)"
      by simp
  }
  assume t: "continueOnFail e"
  then obtain out3 log3
    where rest: "execute_loop e (Suc (length pre)) post [] log2 = (Inr out3, log3)"
    using execute_loop_tolerant by blast
  have "execute_loop e (length pre) (it # post) out1 log1 =
      execute_loop e (Suc (length pre)) post (out1 @ [error_record err (length pre)]) log2"
    using assms(2) t by simp
  also have "\<dots> = (Inr ((out1 @ [error_record err (length pre)]) @ out3), log3)"
    using rest
    by (subst execute_loop_returnData) simp
  finally have "execute e (pre @ it # post) =
      (Inr (out1 @ [JObj [(''error'', JStr (message err)),
                          (''itemIndex'', JNum (int (length pre)))]] @ out3), log3)"
    using split by (simp add: error_record_def)
  with rest show "\<exists>out3 log3.
               execute_loop e (Suc (length pre)) post [] log2 = (Inr out3, log3) \<and>
               execute e (pre @ it # post) =
                 (Inr (out1 @ [JObj [(''error'', JStr (message err)),
                                     (''itemIndex'', JNum (int (length pre)))]] @ out3),
                  log3) \<and>
               (length (out1 @ [JObj [(''error'', JStr (message err)),
                                      (''itemIndex'', JNum (int (length pre)))]] @ out3)
                  = length (pre @ it # post) \<longleftrightarrow>
                length out1 + length out3 = length pre + length post)"
    by auto
qed


lemma example_list_item:
  "fst (process_item (example_env\<lparr>continueOnFail := b\<rparr>) example_item log)
     = Inr [JObj [(''id'', JStr ''A'')], JObj [(''id'', JStr ''B'')]]"
  by (simp add: process_item_def build_request_def Let_def body_and_method_def route_def
        by_id_def common_qs_def get_prop_def js_or_def polarionApiRequest_def authHeader_def
        request_options_def normalize_def example_env_def example_credentials_def
        example_transport_def example_item_def split: prod.splits)

lemma example_rejected_item:
  "fst (process_item (example_env\<lparr>continueOnFail := b\<rparr>) (example_item\<lparr>query := ''status:''\<rparr>)
          log)
     = Inl (NodeOperationError ''Polarion API request failed: 400 - Bad Request'' JUndefined)"
  by (simp add: process_item_def build_request_def Let_def body_and_method_def route_def
        by_id_def common_qs_def get_prop_def js_or_def polarionApiRequest_def authHeader_def
        request_options_def normalize_def example_env_def example_credentials_def
        example_transport_def example_item_def split: prod.splits)

lemma example_list_loop:
  "fst (execute_loop (example_env\<lparr>continueOnFail := b\<rparr>) i [example_item] returnData log)
     = Inr (returnData @ [JObj [(''id'', JStr ''A'')], JObj [(''id'', JStr ''B'')]])"
  using example_list_item [of b log]
  by (cases "process_item (example_env\<lparr>continueOnFail := b\<rparr>) example_item log") simp

theorem one_failing_item_counterexample:
  "fst (execute example_env [example_item, example_item\<lparr>query := ''status:''\<rparr>])
     = Inr [JObj [(''id'', JStr ''A'')], JObj [(''id'', JStr ''B'')],
            JObj [(''error'', JStr ''Polarion API request failed: 400 - Bad Request''),
                  (''itemIndex'', JNum 1)]] \<and>
   length [JObj [(''id'', JStr ''A'')], JObj [(''id'', JStr ''B'')],
            JObj [(''error'', JStr ''Polarion API request failed: 400 - Bad Request''),
                  (''itemIndex'', JNum 1)]]
     \<noteq> length [example_item, example_item\<lparr>query := ''status:''\<rparr>]"
proof -
  let ?e = "example_env\<lparr>continueOnFail := True\<rparr>"
  have e: "?e = example_env" by (simp add: example_env_def)
  obtain l1 where 1: "process_item ?e example_item []
      = (Inr [JObj [(''id'', JStr ''A'')], JObj [(''id'', JStr ''B'')]], l1)"
    using example_list_item [of True "[]"]
    by (cases "process_item ?e example_item []") simp
  obtain l2 where 2: "process_item ?e (example_item\<lparr>query := ''status:''\<rparr>) l1
      = (Inl (NodeOperationError ''Polarion API request failed: 400 - Bad Request'' JUndefined), l2)"
    using example_rejected_item [of True l1]
    by (cases "process_item ?e (example_item\<lparr>query := ''status:''\<rparr>) l1") simp
  have "continueOnFail ?e" by simp
  with 1 2 have "fst (execute ?e [example_item, example_item\<lparr>query := ''status:''\<rparr>])
     = Inr [JObj [(''id'', JStr ''A'')], JObj [(''id'', JStr ''B'')],
            JObj [(''error'', JStr ''Polarion API request failed: 400 - Bad Request''),
                  (''itemIndex'', JNum 1)]]"
    by (simp add: execute_def error_record_def)
  then show ?thesis by (simp add: e)
qed

theorem one_failing_item_witness:
  "fst (execute example_env [example_item, example_item\<lparr>query := ''status:''\<rparr>, example_item])
     = Inr [JObj [(''id'', JStr ''A'')], JObj [(''id'', JStr ''B'')],
            JObj [(''error'', JStr ''Polarion API request failed: 400 - Bad Request''),
                  (''itemIndex'', JNum 1)],
            JObj [(''id'', JStr ''A'')], JObj [(''id'', JStr ''B'')]] \<and>
   fst (execute (example_env\<lparr>continueOnFail := False\<rparr>)
          [example_item, example_item\<lparr>query := ''status:''\<rparr>, example_item])
     = Inl (NodeOperationError ''Polarion API request failed: 400 - Bad Request'' JUndefined)"
proof -
  let ?bad = "example_item\<lparr>query := ''status:''\<rparr>"
  let ?err = "NodeOperationError ''Polarion API request failed: 400 - Bad Request'' JUndefined"
  have run: "fst (execute (example_env\<lparr>continueOnFail := b\<rparr>) [example_item, ?bad, example_item])
      = (if b then Inr [JObj [(''id'', JStr ''A'')], JObj [(''id'', JStr ''B'')],
            JObj [(''error'', JStr ''Polarion API request failed: 400 - Bad Request''),
                  (''itemIndex'', JNum 1)],
            JObj [(''id'', JStr ''A'')], JObj [(''id'', JStr ''B'')]]
         else Inl ?err)" for b
  proof -
    let ?e = "example_env\<lparr>continueOnFail := b\<rparr>"
    obtain l1 where 1: "execute_loop ?e 0 [example_item] [] []
        = (Inr [JObj [(''id'', JStr ''A'')], JObj [(''id'', JStr ''B'')]], l1)"
      using example_list_loop [of b 0 "[]" "[]"]
      by (cases "execute_loop ?e 0 [example_item] [] []") simp
    obtain l2 where 2: "process_item ?e ?bad l1 = (Inl ?err, l2)"
      using example_rejected_item [of b l1]
      by (cases "process_item ?e ?bad l1") simp
    have 3: "fst (execute_loop ?e (Suc (length [example_item])) [example_item] [] l2)
        = Inr [JObj [(''id'', JStr ''A'')], JObj [(''id'', JStr ''B'')]]"
      using example_list_loop [of b _ "[]" l2] by simp
    from one_failing_item [OF 1 2, of "[example_item]"] 3
    show ?thesis by (cases b) auto
  qed
  have "example_env\<lparr>continueOnFail := True\<rparr> = example_env"
    by (simp add: example_env_def)
  with run [of True] run [of False] show ?thesis by simp
qed

subsection \<open>Configuration errors\<close>

lemma polarionApiRequest_misconfigured:
  assumes "getCredentials e = None \<or>
           (\<exists>c. getCredentials e = Some c \<and> authentication c \<noteq> ''basic'' \<and>
                authentication c \<noteq> ''pat'')"
  shows "polarionApiRequest e m p b q u log =
     (Inl (if getCredentials e = None then credentials_not_set else invalid_authentication), log)"
  using assms
  by (auto simp: polarionApiRequest_def authHeader_def)

lemma process_item_misconfigured:
  assumes "getCredentials e = None \<or>
           (\<exists>c. getCredentials e = Some c \<and> authentication c \<noteq> ''basic'' \<and>
                authentication c \<noteq> ''pat'')"
  shows "process_item e it log =
     (Inl (case build_request e it of
             Inl err \<Rightarrow> err
           | Inr spec \<Rightarrow>
               if getCredentials e = None then credentials_not_set else invalid_authentication),
      log)"
  by (simp add: process_item_def polarionApiRequest_misconfigured [OF assms] split: sum.splits)

lemma execute_loop_misconfigured:
  assumes "getCredentials e = None \<or>
           (\<exists>c. getCredentials e = Some c \<and> authentication c \<noteq> ''basic'' \<and>
                authentication c \<noteq> ''pat'')"
    and "continueOnFail e"
  shows "execute_loop e i items returnData log =
     (Inr (returnData @
           map (\<lambda>(j, it).
                  error_record
                    (case build_request e it of
                       Inl err \<Rightarrow> err
                     | Inr spec \<Rightarrow>
                         if getCredentials e = None then credentials_not_set
                         else invalid_authentication) j)
               (enumerate i items)),
      log)"
proof (induction items arbitrary: i returnData)
  case Nil
  then show ?case by simp
next
  case (Cons it items)
  then show ?case
    by (simp add: process_item_misconfigured [OF assms(1)] assms(2))
qed

text \<open>
  C3, as the code has it. Let no credential be stored, or its authentication method be
  neither \<^verbatim>\<open>basic\<close> nor \<^verbatim>\<open>pat\<close>. Without fail-tolerant mode the execution throws at its
  first item (the configuration error, unless building that item's request already
  threw), with no record and no request issued. Under fail-tolerant mode the error is
  caught like any other: every item gets its \<^verbatim>\<open>{error, itemIndex}\<close> record, the loop runs
  to the last item, and no request is issued.
\<close>

theorem configuration_error:
  assumes "getCredentials e = None \<or>
           (\<exists>c. getCredentials e = Some c \<and> authentication c \<noteq> ''basic'' \<and>
                authentication c \<noteq> ''pat'')"
  shows "(\<not> continueOnFail e \<longrightarrow>
            execute e (it # items) =
              (Inl (case build_request e it of
                      Inl err \<Rightarrow> err
                    | Inr spec \<Rightarrow>
                        if getCredentials e = None then credentials_not_set
                        else invalid_authentication),
               [])) \<and>
         (continueOnFail e \<longrightarrow>
            execute e items =
              (Inr (map (\<lambda>(j, it).
                           JObj [(''error'',
                                  JStr (message
                                    (case build_request e it of
                                       Inl err \<Rightarrow> err
                                     | Inr spec \<Rightarrow>
                                         if getCredentials e = None then credentials_not_set
                                         else invalid_authentication))),
                                 (''itemIndex'', JNum (int j))])
                        (enumerate 0 items)),
               []))"
  by (simp add: execute_def process_item_misconfigured [OF assms]
        execute_loop_misconfigured [OF assms] error_record_def)

theorem configuration_error_counterexample:
  "execute (example_env\<lparr>getCredentials := None\<rparr>) [example_item, example_item]
     = (Inr [JObj [(''error'', JStr ''Polarion credentials are not set.''),
                   (''itemIndex'', JNum 0)],
             JObj [(''error'', JStr ''Polarion credentials are not set.''),
                   (''itemIndex'', JNum 1)]],
        [])"
proof -
  let ?e = "example_env\<lparr>getCredentials := None\<rparr>"
  have "build_request ?e example_item
      = Inr \<lparr> rs_method = GET, rs_endpoint = ''/workItems'', rs_body = [],
           rs_qs = [(''limit'', JNum 50), (''skip'', JNum 0), (''query'', JStr ''status:open'')],
           rs_uri = None \<rparr>"
    by (simp add: build_request_def Let_def body_and_method_def route_def by_id_def
        common_qs_def get_prop_def js_or_def example_env_def example_item_def)
  moreover have t: "continueOnFail ?e"
    by (simp add: example_env_def)
  moreover have m: "getCredentials ?e = None \<or>
      (\<exists>c. getCredentials ?e = Some c \<and> authentication c \<noteq> ''basic'' \<and>
           authentication c \<noteq> ''pat'')"
    by simp
  ultimately show ?thesis
    using execute_loop_misconfigured [OF m t, of 0 "[example_item, example_item]" "[]" "[]"]
    by (simp add: execute_def error_record_def credentials_not_set_def
          del: execute_loop.simps)
qed

theorem configuration_error_witness:
  "execute (example_env\<lparr>getCredentials := None, continueOnFail := False\<rparr>)
       [example_item, example_item]
     = (Inl credentials_not_set, []) \<and>
   execute (example_env\<lparr>getCredentials :=
                Some (example_credentials\<lparr>authentication := ''token''\<rparr>)\<rparr>)
       [example_item, example_item]
     = (Inr [JObj [(''error'', JStr ''Invalid authentication method specified in credentials.''),
                   (''itemIndex'', JNum 0)],
             JObj [(''error'', JStr ''Invalid authentication method specified in credentials.''),
                   (''itemIndex'', JNum 1)]],
        [])"
proof -
  let ?n = "example_env\<lparr>getCredentials := None, continueOnFail := False\<rparr>"
  let ?t = "example_env\<lparr>getCredentials :=
                Some (example_credentials\<lparr>authentication := ''token''\<rparr>)\<rparr>"
  have b: "build_request (example_env\<lparr>getCredentials := c, continueOnFail := f\<rparr>)
        example_item
      = Inr \<lparr> rs_method = GET, rs_endpoint = ''/workItems'', rs_body = [],
           rs_qs = [(''limit'', JNum 50), (''skip'', JNum 0), (''query'', JStr ''status:open'')],
           rs_uri = None \<rparr>" for c f
    by (simp add: build_request_def Let_def body_and_method_def route_def by_id_def
        common_qs_def get_prop_def js_or_def example_env_def example_item_def)
  have e: "example_env\<lparr>getCredentials := c, continueOnFail := True\<rparr>
      = example_env\<lparr>getCredentials := c\<rparr>" for c
    by (simp add: example_env_def)
  have "getCredentials ?n = None \<or>
      (\<exists>c. getCredentials ?n = Some c \<and> authentication c \<noteq> ''basic'' \<and>
           authentication c \<noteq> ''pat'')"
    by simp
  from configuration_error [OF this, where it = example_item and items = "[example_item]"]
  have 1: "execute ?n [example_item, example_item] = (Inl credentials_not_set, [])"
    using b [where c = None and f = False] by simp
  have "continueOnFail example_env"
    by (simp add: example_env_def)
  have "getCredentials ?t = None \<or>
      (\<exists>c. getCredentials ?t = Some c \<and> authentication c \<noteq> ''basic'' \<and>
           authentication c \<noteq> ''pat'')"
    by simp
  from configuration_error [OF this, where items = "[example_item, example_item]"]
  have 2: "execute ?t [example_item, example_item]
     = (Inr [JObj [(''error'', JStr ''Invalid authentication method specified in credentials.''),
                   (''itemIndex'', JNum 0)],
             JObj [(''error'', JStr ''Invalid authentication method specified in credentials.''),
                   (''itemIndex'', JNum 1)]],
        [])"
    using b [where c = "Some (example_credentials\<lparr>authentication := ''token''\<rparr>)"
        and f = True]
      \<open>continueOnFail example_env\<close>
    by (simp add: e invalid_authentication_def)
  from 1 2 show ?thesis by blast
qed

end
